theory Spec2Isabelle
  imports Main "HOL-Library.AList"
begin

section \<open>The Python values gpustat.py computes with\<close>

text \<open>
  Text is a list of characters; a character stands for the code point of the same number,
  so the model covers text whose code points lie below 256. A dictionary is an association
  list in insertion order with distinct keys (what \<open>zip\<close> against a tuple of distinct column
  names builds); a dictionary value is \<open>None\<close> for Python's \<open>None\<close> and \<open>Some s\<close> for the
  string \<open>s\<close>. An exception is the \<open>Inl\<close> of a sum. The interpreter's optional limit on the
  number of digits \<open>int()\<close> accepts is not part of the model.
\<close>

datatype error =
    TypeError
  | ValueError
  | KeyError
  | UnboundLocalError
  | AttributeError
  | CalledProcessError
  | Unmodelled

type_synonym pyval = "string option"
type_synonym pydict = "(string \<times> pyval) list"

text \<open>\<open>str.isspace\<close> on the code points below 256.\<close>

definition is_space :: "char \<Rightarrow> bool" where
  "is_space c \<longleftrightarrow>
     c \<in> set [CHR 0x09, CHR 0x0A, CHR 0x0B, CHR 0x0C, CHR 0x0D,
               CHR 0x1C, CHR 0x1D, CHR 0x1E, CHR 0x1F, CHR 0x20, CHR 0x85, CHR 0xA0]"

text \<open>\<open>s.strip()\<close>\<close>

definition strip :: "string \<Rightarrow> string" where
  "strip s = rev (dropWhile is_space (rev (dropWhile is_space s)))"

text \<open>\<open>s.split(sep)\<close> for a separator of one character; the result is never empty.\<close>

fun split_where :: "(char \<Rightarrow> bool) \<Rightarrow> string \<Rightarrow> string list" where
  "split_where P [] = [[]]"
| "split_where P (c # cs) =
     (if P c then [] # split_where P cs
      else (case split_where P cs of
              [] \<Rightarrow> [[c]]
            | x # xs \<Rightarrow> (c # x) # xs))"

definition split_on :: "char \<Rightarrow> string \<Rightarrow> string list" where
  "split_on sep s = split_where (\<lambda>c. c = sep) s"

text \<open>\<open>s.split()\<close>: the maximal runs of characters that are not whitespace.\<close>

definition split_ws :: "string \<Rightarrow> string list" where
  "split_ws s = filter (\<lambda>w. w \<noteq> []) (split_where is_space s)"

fun startswith :: "string \<Rightarrow> string \<Rightarrow> bool" where
  "startswith s [] = True"
| "startswith [] (p # ps) = False"
| "startswith (c # cs) (p # ps) = (c = p \<and> startswith cs ps)"

text \<open>\<open>sub in s\<close>\<close>

fun py_in :: "string \<Rightarrow> string \<Rightarrow> bool" where
  "py_in sub [] = (sub = [])"
| "py_in sub (c # cs) = (startswith (c # cs) sub \<or> py_in sub cs)"

text \<open>\<open>s.split(sep)\<close> for a separator of any positive length, scanning from the left.\<close>

function split_str :: "string \<Rightarrow> string \<Rightarrow> string list" where
  "split_str sep [] = [[]]"
| "split_str sep (c # cs) =
     (if sep \<noteq> [] \<and> startswith (c # cs) sep
      then [] # split_str sep (drop (length sep) (c # cs))
      else (case split_str sep cs of
              [] \<Rightarrow> [[c]]
            | x # xs \<Rightarrow> (c # x) # xs))"
  by pat_completeness auto
termination
  by (relation "measure (\<lambda>(sep, s). length s)") (auto simp: neq_Nil_conv)

text \<open>\<open>re.sub(r"\s+", " ", s)\<close>\<close>

function squeeze_ws :: "string \<Rightarrow> string" where
  "squeeze_ws [] = []"
| "squeeze_ws (c # cs) =
     (if is_space c then CHR '' '' # squeeze_ws (dropWhile is_space cs)
      else c # squeeze_ws cs)"
  by pat_completeness auto
termination
  by (relation "measure length") (auto simp: le_imp_less_Suc length_dropWhile_le)

text \<open>\<open>sep.join(xs)\<close>\<close>

fun join :: "string \<Rightarrow> string list \<Rightarrow> string" where
  "join sep [] = []"
| "join sep [x] = x"
| "join sep (x # y # ys) = x @ sep @ join sep (y # ys)"

text \<open>
  \<open>int(s)\<close> in base ten: surrounding whitespace, one optional sign, then decimal digits, with
  single underscores allowed between two digits.
\<close>

definition is_digit :: "char \<Rightarrow> bool" where
  "is_digit c \<longleftrightarrow> 48 \<le> (of_char c :: nat) \<and> (of_char c :: nat) \<le> 57"

definition digit_val :: "char \<Rightarrow> nat" where
  "digit_val c = of_char c - 48"

fun parse_digits :: "nat \<Rightarrow> string \<Rightarrow> nat option" where
  "parse_digits acc [] = Some acc"
| "parse_digits acc (c # cs) =
     (if is_digit c then parse_digits (acc * 10 + digit_val c) cs
      else if c = CHR ''_'' then
        (case cs of
           [] \<Rightarrow> None
         | d # ds \<Rightarrow> if is_digit d then parse_digits (acc * 10 + digit_val d) ds else None)
      else None)"

definition parse_unsigned :: "string \<Rightarrow> nat option" where
  "parse_unsigned u =
     (case u of
        [] \<Rightarrow> None
      | c # cs \<Rightarrow> if is_digit c then parse_digits (digit_val c) cs else None)"

definition py_int :: "string \<Rightarrow> error + int" where
  "py_int s =
     (case strip s of
        [] \<Rightarrow> Inl ValueError
      | c # cs \<Rightarrow>
          if c = CHR ''-'' then
            (case parse_unsigned cs of None \<Rightarrow> Inl ValueError | Some n \<Rightarrow> Inr (- int n))
          else if c = CHR ''+'' then
            (case parse_unsigned cs of None \<Rightarrow> Inl ValueError | Some n \<Rightarrow> Inr (int n))
          else
            (case parse_unsigned (c # cs) of None \<Rightarrow> Inl ValueError | Some n \<Rightarrow> Inr (int n)))"

text \<open>\<open>int(v)\<close> for a dictionary value: \<open>int(None)\<close> is a \<open>TypeError\<close>.\<close>

definition int_of_val :: "pyval \<Rightarrow> error + int" where
  "int_of_val v = (case v of None \<Rightarrow> Inl TypeError | Some s \<Rightarrow> py_int s)"

text \<open>\<open>str(n)\<close> for an integer.\<close>

function str_nat :: "nat \<Rightarrow> string" where
  "str_nat n =
     (if n < 10 then [''0123456789'' ! n]
      else str_nat (n div 10) @ [''0123456789'' ! (n mod 10)])"
  by pat_completeness auto
termination
  by (relation "measure id") auto

declare str_nat.simps [simp del]

definition str_int :: "int \<Rightarrow> string" where
  "str_int i = (if i < 0 then CHR ''-'' # str_nat (nat (- i)) else str_nat (nat i))"

fun bind :: "error + 'a \<Rightarrow> ('a \<Rightarrow> error + 'b) \<Rightarrow> error + 'b" where
  "bind (Inl e) f = Inl e"
| "bind (Inr x) f = f x"

text \<open>\<open>d[k]\<close>, raising \<open>KeyError\<close> for a missing key.\<close>

definition getitem :: "('k \<times> 'v) list \<Rightarrow> 'k \<Rightarrow> error + 'v" where
  "getitem d k = (case map_of d k of None \<Rightarrow> Inl KeyError | Some v \<Rightarrow> Inr v)"

section \<open>class ANSIColors\<close>

definition ESC :: char where "ESC = CHR 0x1B"

definition RESET :: string where "RESET = ESC # ''[0m''"
definition WHITE :: string where "WHITE = ESC # ''[1m''"
definition RED :: string where "RED = ESC # ''[0;31m''"
definition GREEN :: string where "GREEN = ESC # ''[0;32m''"
definition YELLOW :: string where "YELLOW = ESC # ''[0;33m''"
definition BLUE :: string where "BLUE = ESC # ''[0;34m''"
definition MAGENTA :: string where "MAGENTA = ESC # ''[0;35m''"
definition CYAN :: string where "CYAN = ESC # ''[0;36m''"
definition GRAY :: string where "GRAY = ESC # ''[1;30m''"
definition BOLD_RED :: string where "BOLD_RED = ESC # ''[1;31m''"
definition BOLD_GREEN :: string where "BOLD_GREEN = ESC # ''[1;32m''"
definition BOLD_YELLOW :: string where "BOLD_YELLOW = ESC # ''[1;33m''"

section \<open>class GPUStat\<close>

record GPUStat =
  entry :: pydict
  processes :: "pydict list"

definition not_supported :: string where
  "not_supported = ''Not Supported''"

text \<open>
  Lines 53 to 55: every value that contains the marker becomes \<open>None\<close>. A value that is
  already \<open>None\<close> makes \<open>in\<close> raise \<open>TypeError\<close>.
\<close>

fun clear_unsupported :: "pydict \<Rightarrow> error + pydict" where
  "clear_unsupported [] = Inr []"
| "clear_unsupported ((k, v) # kvs) =
     (case v of
        None \<Rightarrow> Inl TypeError
      | Some s \<Rightarrow>
          (case clear_unsupported kvs of
             Inl e \<Rightarrow> Inl e
           | Inr r \<Rightarrow> Inr ((k, if py_in not_supported s then None else Some s) # r)))"

text \<open>\<open>GPUStat.__init__\<close>; the type of the argument makes the \<open>isinstance\<close> check pass.\<close>

definition GPUStat_init :: "pydict \<Rightarrow> error + GPUStat" where
  "GPUStat_init e =
     (case clear_unsupported e of
        Inl err \<Rightarrow> Inl err
      | Inr e1 \<Rightarrow>
          (case getitem e1 ''utilization.gpu'' of
             Inl err \<Rightarrow> Inl err
           | Inr None \<Rightarrow>
               Inr \<lparr>entry = AList.update ''utilization.gpu'' (Some ''??'') e1, processes = []\<rparr>
           | Inr (Some u) \<Rightarrow> Inr \<lparr>entry = e1, processes = []\<rparr>))"

text \<open>
  The operator \<open>%\<close> with a mapping on the right, as \<open>print_to\<close> and \<open>print_formatted\<close> use
  it: text is copied, \<open>%%\<close> gives one percent sign, and \<open>%(key)s\<close> gives the value stored
  under \<open>key\<close> (parentheses inside a key are counted). A missing key is a \<open>KeyError\<close>, a
  format that stops early a \<open>ValueError\<close>. Every other conversion can only come from a
  percent sign inside a reported value and is outside the model (\<open>Unmodelled\<close>).
\<close>

datatype fmt_state = Literal | Percent | Key nat string | Conv string

fun percent_format :: "(string \<Rightarrow> error + string) \<Rightarrow> fmt_state \<Rightarrow> string \<Rightarrow> error + string" where
  "percent_format m Literal [] = Inr []"
| "percent_format m Percent [] = Inl ValueError"
| "percent_format m (Key d k) [] = Inl ValueError"
| "percent_format m (Conv v) [] = Inl ValueError"
| "percent_format m Literal (c # cs) =
     (if c = CHR ''%'' then percent_format m Percent cs
      else bind (percent_format m Literal cs) (\<lambda>r. Inr (c # r)))"
| "percent_format m Percent (c # cs) =
     (if c = CHR ''%'' then bind (percent_format m Literal cs) (\<lambda>r. Inr (CHR ''%'' # r))
      else if c = CHR ''('' then percent_format m (Key 0 []) cs
      else Inl Unmodelled)"
| "percent_format m (Key d k) (c # cs) =
     (if c = CHR '')'' then
        (if d = 0 then bind (m k) (\<lambda>v. percent_format m (Conv v) cs)
         else percent_format m (Key (d - 1) (k @ [c])) cs)
      else if c = CHR ''('' then percent_format m (Key (Suc d) (k @ [c])) cs
      else percent_format m (Key d (k @ [c])) cs)"
| "percent_format m (Conv v) (c # cs) =
     (if c = CHR ''s'' then bind (percent_format m Literal cs) (\<lambda>r. Inr (v @ r))
      else Inl Unmodelled)"

text \<open>The replacement fields of the f-strings of \<open>print_to\<close>.\<close>

definition fmt_plain :: "pyval \<Rightarrow> string" where
  "fmt_plain v = (case v of None \<Rightarrow> ''None'' | Some s \<Rightarrow> s)"

definition fmt_left :: "nat \<Rightarrow> pyval \<Rightarrow> error + string" where
  "fmt_left w v =
     (case v of
        None \<Rightarrow> Inl TypeError
      | Some s \<Rightarrow> Inr (s @ replicate (w - length s) CHR '' ''))"

definition fmt_right :: "nat \<Rightarrow> pyval \<Rightarrow> error + string" where
  "fmt_right w v =
     (case v of
        None \<Rightarrow> Inl TypeError
      | Some s \<Rightarrow> Inr (replicate (w - length s) CHR '' '' @ s))"

text \<open>Lines 73 to 92: the colour table.\<close>

definition print_colors :: "pydict \<Rightarrow> bool \<Rightarrow> error + (string \<times> string) list" where
  "print_colors e with_colors =
     bind (getitem e ''temperature.gpu'') (\<lambda>tv.
     bind (int_of_val tv) (\<lambda>t.
     bind (getitem e ''utilization.gpu'') (\<lambda>uv.
     bind (int_of_val uv) (\<lambda>u.
       let colors =
         [(''C0'', RESET), (''C1'', CYAN), (''CName'', BLUE),
          (''CTemp'', if t \<ge> 50 then BOLD_RED else RED),
          (''CMemU'', BOLD_YELLOW), (''CMemT'', YELLOW), (''CMemP'', YELLOW),
          (''CUser'', GRAY),
          (''CUtil'', if u \<ge> 30 then BOLD_GREEN else GREEN)]
       in Inr (if with_colors then colors else map (\<lambda>(k, v). (k, [])) colors)))))"

text \<open>Lines 95 to 103: the line before the colours are filled in.\<close>

definition print_template :: "pydict \<Rightarrow> nat \<Rightarrow> error + string" where
  "print_template e gpuname_width =
     bind (getitem e ''index'') (\<lambda>iv.
     bind (getitem e ''name'') (\<lambda>nv.
     bind (fmt_left gpuname_width nv) (\<lambda>name.
     bind (getitem e ''temperature.gpu'') (\<lambda>tv.
     bind (fmt_right 3 tv) (\<lambda>temp.
     bind (getitem e ''utilization.gpu'') (\<lambda>uv.
     bind (fmt_right 3 uv) (\<lambda>util.
     bind (getitem e ''memory.used'') (\<lambda>muv.
     bind (fmt_right 5 muv) (\<lambda>mem_used.
     bind (getitem e ''memory.total'') (\<lambda>mtv.
     bind (fmt_right 5 mtv) (\<lambda>mem_total.
       let gpu_index = ''%(C1)s['' @ fmt_plain iv @ '']%(C0)s'';
           gpu_name = ''%(CName)s'' @ name @ ''%(C0)s'';
           gpu_temp = ''%(CTemp)s'' @ temp @ [CHR 0x27] @ ''C%(C0)s'';
           gpu_utilization = ''%(CUtil)s'' @ util @ '' %%%(C0)s'';
           gpu_mem_used = ''%(CMemU)s'' @ mem_used @ ''%(C0)s'';
           gpu_mem_total = ''%(CMemT)s'' @ mem_total @ ''%(C0)s MB''
       in Inr (gpu_index @ '' '' @ gpu_name @ '' |'' @ gpu_temp @ '', '' @
               gpu_utilization @ '' | '' @ gpu_mem_used @ '' / '' @ gpu_mem_total))))))))))))"

definition repr_val :: "pyval \<Rightarrow> string \<Rightarrow> string" where
  "repr_val v none_value = (case v of None \<Rightarrow> none_value | Some s \<Rightarrow> s)"

text \<open>A key of the colour table, which holds all nine keys.\<close>

definition color :: "(string \<times> string) list \<Rightarrow> string \<Rightarrow> string" where
  "color colors k = (case map_of colors k of None \<Rightarrow> [] | Some v \<Rightarrow> v)"

definition process_repr ::
  "(string \<times> string) list \<Rightarrow> bool \<Rightarrow> bool \<Rightarrow> bool \<Rightarrow> pydict \<Rightarrow> error + string" where
  "process_repr colors show_cmd show_user show_pid p =
     bind (if \<not> show_cmd \<or> show_user
           then bind (getitem p ''user'') (\<lambda>u.
                  Inr (color colors ''CUser'' @ repr_val u ''--'' @ color colors ''C0''))
           else Inr []) (\<lambda>r1.
     bind (if show_cmd
           then bind (getitem p ''pid'') (\<lambda>pid.
                  let c = (case map_of p ''comm'' of None \<Rightarrow> pid | Some v \<Rightarrow> v)
                  in Inr ((if r1 \<noteq> [] then r1 @ '':'' else r1) @
                          color colors ''C1'' @ repr_val c ''--'' @ color colors ''C0''))
           else Inr r1) (\<lambda>r2.
     bind (if show_pid
           then bind (getitem p ''pid'') (\<lambda>pid. Inr (r2 @ ''/'' @ repr_val pid ''--''))
           else Inr r2) (\<lambda>r3.
     bind (getitem p ''used_memory'') (\<lambda>m.
       Inr (r3 @ ''('' @ color colors ''CMemP'' @ repr_val m ''?'' @ ''M'' @
            color colors ''C0'' @ '')'')))))"

fun process_reprs ::
  "(string \<times> string) list \<Rightarrow> bool \<Rightarrow> bool \<Rightarrow> bool \<Rightarrow> pydict list \<Rightarrow> error + string" where
  "process_reprs colors show_cmd show_user show_pid [] = Inr []"
| "process_reprs colors show_cmd show_user show_pid (p # ps) =
     bind (process_repr colors show_cmd show_user show_pid p) (\<lambda>r.
     bind (process_reprs colors show_cmd show_user show_pid ps) (\<lambda>rs.
       Inr ('' '' @ r @ rs)))"

text \<open>\<open>GPUStat.print_to\<close>: the text written to \<open>fp\<close>, or the exception raised before.\<close>

definition print_to :: "GPUStat \<Rightarrow> bool \<Rightarrow> bool \<Rightarrow> bool \<Rightarrow> bool \<Rightarrow> nat \<Rightarrow> error + string" where
  "print_to g with_colors show_cmd show_user show_pid gpuname_width =
     bind (print_colors (entry g) with_colors) (\<lambda>colors.
     bind (print_template (entry g) gpuname_width) (\<lambda>template.
     bind (percent_format (getitem colors) Literal template) (\<lambda>reps.
     bind (process_reprs colors show_cmd show_user show_pid (processes g)) (\<lambda>ps.
       Inr (reps @ '' |'' @ ps)))))"

text \<open>The property \<open>uuid\<close>.\<close>

definition uuid :: "GPUStat \<Rightarrow> error + pyval" where
  "uuid g = getitem (entry g) ''uuid''"

section \<open>The outside world and \<open>exec_command\<close>\<close>

text \<open>
  One query cycle runs every command line at most once, so the outside world is a function
  from the command line to what \<open>check_output(command, shell=True).decode()\<close> gives:
  \<open>Some\<close> of the decoded output, or \<open>None\<close> when the call raises \<open>CalledProcessError\<close>.
  \<open>node\<close> is \<open>platform.node()\<close>, and \<open>clock\<close> is the query time as \<open>strftime\<close> prints it in
  the locale's date and time format.
\<close>

record world =
  run :: "string \<Rightarrow> string option"
  node :: string
  clock :: string

definition exec_command :: "world \<Rightarrow> string \<Rightarrow> bool \<Rightarrow> error + string option" where
  "exec_command w command ignore_exceptions =
     (case run w command of
        Some out \<Rightarrow> Inr (Some (strip out))
      | None \<Rightarrow> if ignore_exceptions then Inr None else Inl CalledProcessError)"

text \<open>A method call on the result of \<open>exec_command\<close>: on \<open>None\<close> it is an \<open>AttributeError\<close>.\<close>

definition the_text :: "string option \<Rightarrow> error + string" where
  "the_text r = (case r of None \<Rightarrow> Inl AttributeError | Some s \<Rightarrow> Inr s)"

definition lines :: "string \<Rightarrow> string list" where
  "lines s = split_on CHR 0x0A s"

section \<open>\<open>GPUStatCollection.running_processes\<close>\<close>

type_synonym pident = "string \<times> string"
type_synonym pidmap = "(int \<times> pident option) list"

definition apps_query_columns :: "string list" where
  "apps_query_columns = [''gpu_uuid'', ''pid'', ''used_memory'']"

definition apps_command :: string where
  "apps_command =
     ''nvidia-smi --query-compute-apps='' @ join '','' apps_query_columns @
     '' --format=csv,noheader,nounits''"

text \<open>Lines 208 to 211: one line of the compute-process listing.\<close>

definition process_entry_of_line :: "string \<Rightarrow> pydict" where
  "process_entry_of_line line =
     zip apps_query_columns (map (\<lambda>r. Some (strip r)) (split_on CHR '','' line))"

definition parse_process_entries :: "string \<Rightarrow> pydict list" where
  "parse_process_entries smi_output =
     map process_entry_of_line (filter (\<lambda>l. l \<noteq> []) (lines smi_output))"

text \<open>
  Lines 214 to 218. A value of \<open>pid_map\<close> is \<open>Some (user, comm)\<close> for the dictionary with
  these two keys and \<open>None\<close> for Python's \<open>None\<close>, which line 295 tests for.
\<close>

fun build_pid_map :: "pidmap \<Rightarrow> pydict list \<Rightarrow> error + pidmap" where
  "build_pid_map m [] = Inr m"
| "build_pid_map m (e # es) =
     bind (getitem e ''pid'') (\<lambda>pv.
       case pv of
         None \<Rightarrow> Inl TypeError
       | Some p \<Rightarrow>
           if py_in not_supported p then build_pid_map m es
           else bind (py_int p) (\<lambda>n.
                  build_pid_map (AList.update n (Some (''UNKNOWN'', [])) m) es))"

definition ps_command :: "int list \<Rightarrow> string" where
  "ps_command pids = ''ps -o pid,user:16,comm -p '' @ join '','' (map str_int pids)"

text \<open>Lines 227 to 231.\<close>

fun read_ps_lines :: "pidmap \<Rightarrow> string list \<Rightarrow> error + pidmap" where
  "read_ps_lines m [] = Inr m"
| "read_ps_lines m (l # ls) =
     (if l = [] \<or> py_in ''PID'' l then read_ps_lines m ls
      else (case split_ws l of
              [pid, user, comm] \<Rightarrow>
                bind (py_int pid) (\<lambda>n. read_ps_lines (AList.update n (Some (user, comm)) m) ls)
            | _ \<Rightarrow> Inl ValueError))"

definition truthy :: "string option \<Rightarrow> bool" where
  "truthy v = (case v of None \<Rightarrow> False | Some s \<Rightarrow> s \<noteq> [])"

definition docker_ps_command :: string where
  "docker_ps_command = ''docker ps --format \"{{.ID}}<>{{.Names}}<>{{.Command}}\" --no-trunc''"

text \<open>Lines 243 to 245.\<close>

fun read_docker_items ::
  "(string \<times> string \<times> string) list \<Rightarrow> string list \<Rightarrow> error + (string \<times> string \<times> string) list" where
  "read_docker_items d [] = Inr d"
| "read_docker_items d (item # items) =
     (case split_str ''<>'' item of
        [container_id, container_name, command] \<Rightarrow>
          read_docker_items (AList.update container_id (container_name, command) d) items
      | _ \<Rightarrow> Inl ValueError)"

definition cgroup_command :: "int \<Rightarrow> string" where
  "cgroup_command pid =
     ''ps xaw -eo pid,user,cgroup | sed 1d | sed -e '' @ [CHR 0x27] @ ''s/^[ '' @ [CHR 0x09] @
     '']*//g'' @ [CHR 0x27] @ '' | grep '' @ str_int pid @ '' -m 1''"

text \<open>Lines 255 to 258: the user and the control group of the line found for a pid.\<close>

definition cgroup_fields :: "string \<Rightarrow> error + string \<times> string" where
  "cgroup_fields out =
     (case map strip (split_on CHR '' '' (squeeze_ws (strip out))) of
        [p, user, cgroup] \<Rightarrow> Inr (user, cgroup)
      | _ \<Rightarrow> Inl ValueError)"

text \<open>\<open>cgroup.split(",")[0].split("/")[-1]\<close>; neither \<open>split\<close> gives an empty list.\<close>

definition container_of :: "string \<Rightarrow> string" where
  "container_of cgroup = last (split_on CHR ''/'' (hd (split_on CHR '','' cgroup)))"

text \<open>
  Lines 249 to 278 for one pid: the value of \<open>pid_map[pid]\<close> after the \<open>try\<close> statement.
  Every exception inside it leaves the value as it was.
\<close>

definition resolve_pid ::
  "world \<Rightarrow> bool \<Rightarrow> bool \<Rightarrow> (string \<times> string \<times> string) list \<Rightarrow> int \<Rightarrow> pident option \<Rightarrow> pident option" where
  "resolve_pid w lxc docker docker_info_dict pid v =
     (case run w (cgroup_command pid) of
        None \<Rightarrow> v
      | Some out \<Rightarrow>
          (case cgroup_fields out of
             Inl e \<Rightarrow> v
           | Inr (user, cgroup) \<Rightarrow>
               if lxc \<and> py_in ''lxc'' cgroup then
                 (case v of
                    None \<Rightarrow> v
                  | Some (u, c) \<Rightarrow> Some (u @ ''/'' @ container_of cgroup, c))
               else if docker \<and> py_in ''docker'' cgroup then
                 (case v of
                    None \<Rightarrow> v
                  | Some (u, c) \<Rightarrow>
                      (case map_of docker_info_dict (container_of cgroup) of
                         Some (docker_container_name, command) \<Rightarrow> Some (docker_container_name, c)
                       | None \<Rightarrow> Some (''UNKNOWN'', c)))
               else v))"

definition resolve_containers ::
  "world \<Rightarrow> bool \<Rightarrow> bool \<Rightarrow> (string \<times> string \<times> string) list \<Rightarrow> pidmap \<Rightarrow> pidmap" where
  "resolve_containers w lxc docker docker_info_dict pid_map =
     map (\<lambda>(pid, v). (pid, resolve_pid w lxc docker docker_info_dict pid v)) pid_map"

text \<open>Lines 287 to 290.\<close>

definition blank_entry :: "pydict \<Rightarrow> pydict" where
  "blank_entry e =
     AList.update ''used_memory'' None
       (AList.update ''pid'' None
         (AList.update ''comm'' None
           (AList.update ''user'' None e)))"

text \<open>Line 301.\<close>

definition update_entry :: "pydict \<Rightarrow> pident \<Rightarrow> pydict" where
  "update_entry e v =
     AList.update ''comm'' (Some (snd v)) (AList.update ''user'' (Some (fst v)) e)"

text \<open>
  Lines 281 to 301, over the entries still to visit: the entries that stay in
  \<open>process_entries\<close>, as they are afterwards.
\<close>

fun annotate_entries :: "pidmap \<Rightarrow> pydict list \<Rightarrow> error + pydict list" where
  "annotate_entries pid_map [] = Inr []"
| "annotate_entries pid_map (e # es) =
     bind (getitem e ''pid'') (\<lambda>pv.
       case pv of
         None \<Rightarrow> Inl TypeError
       | Some p \<Rightarrow>
           if py_in not_supported p then
             bind (annotate_entries pid_map es) (\<lambda>r. Inr (blank_entry e # r))
           else
             bind (py_int p) (\<lambda>pid.
             bind (getitem pid_map pid) (\<lambda>v.
               case v of
                 None \<Rightarrow> annotate_entries pid_map es
               | Some i \<Rightarrow>
                   bind (annotate_entries pid_map es) (\<lambda>r. Inr (update_entry e i # r)))))"

text \<open>Lines 200 to 212.\<close>

definition query_process_entries :: "world \<Rightarrow> error + pydict list" where
  "query_process_entries w =
     bind (exec_command w apps_command False) (\<lambda>r.
     bind (the_text r) (\<lambda>smi_output. Inr (parse_process_entries smi_output)))"

text \<open>Lines 214 to 231.\<close>

definition os_identities :: "world \<Rightarrow> pydict list \<Rightarrow> error + pidmap" where
  "os_identities w process_entries =
     bind (build_pid_map [] process_entries) (\<lambda>pid_map.
       if pid_map \<noteq> []
       then bind (exec_command w (ps_command (map fst pid_map)) False) (\<lambda>r.
            bind (the_text r) (\<lambda>pid_output. read_ps_lines pid_map (lines pid_output)))
       else Inr pid_map)"

text \<open>Lines 239 to 245; without docker the table is never read.\<close>

definition docker_listing ::
  "world \<Rightarrow> string option \<Rightarrow> error + (string \<times> string \<times> string) list" where
  "docker_listing w docker_version =
     (if truthy docker_version
      then bind (exec_command w docker_ps_command False) (\<lambda>r.
           bind (the_text r) (\<lambda>listing. read_docker_items [] (lines listing)))
      else Inr [])"

definition lxc_probe :: string where "lxc_probe = ''lxc-info --version''"
definition docker_probe :: string where "docker_probe = ''docker --version''"

definition running_processes :: "world \<Rightarrow> error + pydict list" where
  "running_processes w =
     bind (query_process_entries w) (\<lambda>process_entries.
     bind (os_identities w process_entries) (\<lambda>pid_map.
     bind (exec_command w lxc_probe True) (\<lambda>lxc_version.
     bind (exec_command w docker_probe True) (\<lambda>docker_version.
     bind (docker_listing w docker_version) (\<lambda>docker_info_dict.
       annotate_entries
         (if truthy lxc_version \<or> truthy docker_version
          then resolve_containers w (truthy lxc_version) (truthy docker_version)
                 docker_info_dict pid_map
          else pid_map)
         process_entries)))))"

section \<open>class GPUStatCollection\<close>

record GPUStatCollection =
  gpus :: "(pyval \<times> GPUStat) list"
  hostname :: string
  query_time :: string

definition add_process :: "pydict \<Rightarrow> GPUStat \<Rightarrow> GPUStat" where
  "add_process p g = g\<lparr>processes := processes g @ [p]\<rparr>"

text \<open>
  Lines 307 to 313. The local variable \<open>g\<close> names one of the objects stored in \<open>gpus\<close>, so it
  is kept as the key of that object, and \<open>None\<close> while nothing has been assigned to it.
  When the lookup of line 309 raises \<open>KeyError\<close>, \<open>g\<close> keeps what it had; line 313 then
  runs all the same.
\<close>

fun attach_processes ::
  "(pyval \<times> GPUStat) list \<Rightarrow> pyval option \<Rightarrow> pydict list \<Rightarrow> error + (pyval \<times> GPUStat) list" where
  "attach_processes gs g [] = Inr gs"
| "attach_processes gs g (p # ps) =
     (let g' = (case getitem p ''gpu_uuid'' of
                  Inl e \<Rightarrow> g
                | Inr k \<Rightarrow> (case map_of gs k of None \<Rightarrow> g | Some obj \<Rightarrow> Some k))
      in case g' of
           None \<Rightarrow> Inl UnboundLocalError
         | Some k \<Rightarrow> attach_processes (AList.map_entry k (add_process p) gs) g' ps)"

definition update_process_information ::
  "world \<Rightarrow> (pyval \<times> GPUStat) list \<Rightarrow> error + (pyval \<times> GPUStat) list" where
  "update_process_information w gs =
     bind (running_processes w) (\<lambda>processes. attach_processes gs None processes)"

text \<open>Lines 157 to 159.\<close>

fun index_gpus :: "(pyval \<times> GPUStat) list \<Rightarrow> GPUStat list \<Rightarrow> error + (pyval \<times> GPUStat) list" where
  "index_gpus gs [] = Inr gs"
| "index_gpus gs (g # rest) = bind (uuid g) (\<lambda>k. index_gpus (AList.update k g gs) rest)"

definition GPUStatCollection_init :: "world \<Rightarrow> GPUStat list \<Rightarrow> error + GPUStatCollection" where
  "GPUStatCollection_init w gpu_list =
     bind (index_gpus [] gpu_list) (\<lambda>gs0.
     bind (update_process_information w gs0) (\<lambda>gs.
       Inr \<lparr>gpus = gs, hostname = node w, query_time = clock w\<rparr>))"

definition gpu_query_columns :: "string list" where
  "gpu_query_columns =
     [''index'', ''uuid'', ''name'', ''temperature.gpu'', ''utilization.gpu'',
      ''memory.used'', ''memory.total'']"

definition gpu_command :: string where
  "gpu_command =
     ''nvidia-smi --query-gpu='' @ join '','' gpu_query_columns @
     '' --format=csv,noheader,nounits''"

text \<open>Lines 188 to 191: the dictionary built from one line of the device listing.\<close>

definition gpu_entry_of_line :: "string \<Rightarrow> pydict" where
  "gpu_entry_of_line line =
     zip gpu_query_columns (map (\<lambda>r. Some (strip (strip r))) (split_on CHR '','' line))"

text \<open>Lines 185 to 193.\<close>

fun parse_gpu_lines :: "string list \<Rightarrow> error + GPUStat list" where
  "parse_gpu_lines [] = Inr []"
| "parse_gpu_lines (line # rest) =
     (if line = [] then parse_gpu_lines rest
      else bind (GPUStat_init (gpu_entry_of_line line)) (\<lambda>g.
           bind (parse_gpu_lines rest) (\<lambda>gs. Inr (g # gs))))"

text \<open>The device records of \<open>new_query\<close>, before the collection is built from them.\<close>

definition query_gpu_list :: "world \<Rightarrow> error + GPUStat list" where
  "query_gpu_list w =
     bind (exec_command w gpu_command False) (\<lambda>r.
     bind (the_text r) (\<lambda>smi_output. parse_gpu_lines (lines smi_output)))"

definition new_query :: "world \<Rightarrow> error + GPUStatCollection" where
  "new_query w = bind (query_gpu_list w) (\<lambda>gpu_list. GPUStatCollection_init w gpu_list)"

section \<open>\<open>print_formatted\<close> and \<open>print_gpustat\<close>\<close>

text \<open>
  \<open>ANSIColors.__dict__\<close> as the mapping of the header's \<open>%\<close>: the twelve colour names.
  The other attributes of the class are outside the model.
\<close>

definition ansi_colors :: "(string \<times> string) list" where
  "ansi_colors =
     [(''RESET'', RESET), (''WHITE'', WHITE), (''RED'', RED), (''GREEN'', GREEN),
      (''YELLOW'', YELLOW), (''BLUE'', BLUE), (''MAGENTA'', MAGENTA), (''CYAN'', CYAN),
      (''GRAY'', GRAY), (''BOLD_RED'', BOLD_RED), (''BOLD_GREEN'', BOLD_GREEN),
      (''BOLD_YELLOW'', BOLD_YELLOW)]"

definition ansi_dict :: "string \<Rightarrow> error + string" where
  "ansi_dict k = (case map_of ansi_colors k of None \<Rightarrow> Inl Unmodelled | Some v \<Rightarrow> Inr v)"

text \<open>\<open>defaultdict(str)\<close>\<close>

definition empty_default :: "string \<Rightarrow> error + string" where
  "empty_default k = Inr []"

record args =
  no_color :: bool
  show_cmd :: bool
  show_user :: bool
  show_pid :: bool
  gpuname_width :: int

text \<open>\<open>len(g.entry["name"])\<close> for every device, line 353.\<close>

fun name_lengths :: "GPUStat list \<Rightarrow> error + int list" where
  "name_lengths [] = Inr []"
| "name_lengths (g # gs) =
     bind (getitem (entry g) ''name'') (\<lambda>nv.
       case nv of
         None \<Rightarrow> Inl TypeError
       | Some n \<Rightarrow> bind (name_lengths gs) (\<lambda>ls. Inr (int (length n) # ls)))"

text \<open>Lines 355 to 364.\<close>

fun print_body :: "args \<Rightarrow> nat \<Rightarrow> GPUStat list \<Rightarrow> error + string" where
  "print_body a width [] = Inr []"
| "print_body a width (g # gs) =
     bind (print_to g (\<not> no_color a) (show_cmd a) (show_user a) (show_pid a) width) (\<lambda>l.
     bind (print_body a width gs) (\<lambda>r. Inr (l @ [CHR 0x0A] @ r)))"

text \<open>\<open>print_formatted\<close> with \<open>fp\<close> the standard output: everything printed.\<close>

definition print_formatted :: "GPUStatCollection \<Rightarrow> args \<Rightarrow> error + string" where
  "print_formatted c a =
     bind (percent_format (if no_color a then empty_default else ansi_dict) Literal
             (''%(WHITE)s'' @ hostname c @ ''%(RESET)s  '' @ query_time c)) (\<lambda>header_msg.
     bind (name_lengths (map snd (gpus c))) (\<lambda>ls.
     bind (print_body a (nat (Max (set (gpuname_width a # ls)))) (map snd (gpus c))) (\<lambda>body.
       Inr (header_msg @ [CHR 0x0A] @ body))))"

definition nvidia_smi_error :: string where
  "nvidia_smi_error = ''Error on calling nvidia-smi'' @ [CHR 0x0A]"

datatype outcome =
    Exit int string
  | Uncaught error
  | Printed string

text \<open>
  \<open>print_gpustat\<close>: \<open>Exit 1\<close> with the text written to the standard error when
  \<open>CalledProcessError\<close> leaves \<open>new_query\<close>, the exception when another one does.
\<close>

definition print_gpustat :: "world \<Rightarrow> args \<Rightarrow> outcome" where
  "print_gpustat w a =
     (case new_query w of
        Inl e \<Rightarrow>
          if e = CalledProcessError then Exit 1 nvidia_smi_error
          else Uncaught e
      | Inr gpu_stats \<Rightarrow>
          (case print_formatted gpu_stats a of
             Inl e \<Rightarrow> Uncaught e
           | Inr out \<Rightarrow> Printed out))"

section \<open>Notions used in the statements\<close>

text \<open>No value of a pid map is Python's \<open>None\<close>.\<close>

definition known :: "pidmap \<Rightarrow> bool" where
  "known m \<longleftrightarrow> None \<notin> snd ` set m"

text \<open>
  The world in which a container-runtime version probe that fails answers with no text
  instead; everything else is as in \<open>w\<close>.
\<close>

definition quiet_probes :: "world \<Rightarrow> world" where
  "quiet_probes w =
     w\<lparr>run := (\<lambda>c. if (c = lxc_probe \<or> c = docker_probe) \<and> run w c = None
                    then Some [] else run w c)\<rparr>"


section \<open>Concrete runs\<close>

definition default_args :: args where
  "default_args =
     \<lparr>no_color = False, show_cmd = False, show_user = False, show_pid = False,
      gpuname_width = 16\<rparr>"

text \<open>A device listing whose only line has four fields.\<close>

definition short_world :: world where
  "short_world =
     \<lparr>run = (\<lambda>c. if c = gpu_command
                 then Some (''0, GPU-aaa, Tesla K80, 65'' @ [CHR 0x0A]) else None),
      node = ''host'', clock = ''now''\<rparr>"

text \<open>Scenario B of the specification: temperature and utilization are not supported.\<close>

definition scenario_b_line :: string where
  "scenario_b_line = ''0, GPU-aaa, Tesla K80, Not Supported, Not Supported, 0, 12000''"

definition scenario_b_gpu :: GPUStat where
  "scenario_b_gpu =
     \<lparr>entry =
        [(''index'', Some ''0''), (''uuid'', Some ''GPU-aaa''), (''name'', Some ''Tesla K80''),
         (''temperature.gpu'', None), (''utilization.gpu'', Some ''??''),
         (''memory.used'', Some ''0''), (''memory.total'', Some ''12000'')],
      processes = []\<rparr>"

definition scenario_b_world :: world where
  "scenario_b_world =
     \<lparr>run = (\<lambda>c. if c = gpu_command then Some (scenario_b_line @ [CHR 0x0A])
                 else if c = apps_command then Some []
                 else None),
      node = ''host'', clock = ''now''\<rparr>"

text \<open>The same device listing on another host at another time, with no process query.\<close>

definition scenario_b_later :: world where
  "scenario_b_later =
     \<lparr>run = (\<lambda>c. if c = gpu_command then Some (scenario_b_line @ [CHR 0x0A]) else None),
      node = ''other'', clock = ''later''\<rparr>"

text \<open>One device, at the thresholds of the colour table.\<close>

definition device_line :: string where
  "device_line = ''0, GPU-aaa, Tesla K80, 50, 30, 1024, 12000''"

definition device_entry :: pydict where
  "device_entry =
     [(''index'', Some ''0''), (''uuid'', Some ''GPU-aaa''), (''name'', Some ''Tesla K80''),
      (''temperature.gpu'', Some ''50''), (''utilization.gpu'', Some ''30''),
      (''memory.used'', Some ''1024''), (''memory.total'', Some ''12000'')]"

definition ps_header :: string where
  "ps_header = ''    PID USER             COMMAND''"

text \<open>
  Two compute processes, the second on a device that the device listing does not have;
  the operating system knows both.
\<close>

definition join_world :: world where
  "join_world =
     \<lparr>run = (\<lambda>c.
        if c = gpu_command then Some (device_line @ [CHR 0x0A])
        else if c = apps_command
          then Some (''GPU-aaa, 10, 5'' @ [CHR 0x0A] @ ''GPU-zzz, 11, 6'' @ [CHR 0x0A])
        else if c = ps_command [10, 11]
          then Some (ps_header @ [CHR 0x0A] @ ''     10 alice            python'' @ [CHR 0x0A] @
                     ''     11 bob              blender'' @ [CHR 0x0A])
        else None),
      node = ''host'', clock = ''now''\<rparr>"

text \<open>The only compute process is on a device that the device listing does not have.\<close>

definition orphan_world :: world where
  "orphan_world =
     \<lparr>run = (\<lambda>c.
        if c = gpu_command then Some (device_line @ [CHR 0x0A])
        else if c = apps_command then Some (''GPU-zzz, 11, 6'' @ [CHR 0x0A])
        else if c = ps_command [11]
          then Some (ps_header @ [CHR 0x0A] @ ''     11 bob              blender'' @ [CHR 0x0A])
        else None),
      node = ''host'', clock = ''now''\<rparr>"

text \<open>
  Two compute processes on the device; process 1234 has exited before the process listing,
  which has a line for process 10 only.
\<close>

definition exited_world :: world where
  "exited_world =
     \<lparr>run = (\<lambda>c.
        if c = gpu_command then Some (device_line @ [CHR 0x0A])
        else if c = apps_command
          then Some (''GPU-aaa, 10, 5'' @ [CHR 0x0A] @ ''GPU-aaa, 1234, 256'' @ [CHR 0x0A])
        else if c = ps_command [10, 1234]
          then Some (ps_header @ [CHR 0x0A] @ ''     10 alice            python'' @ [CHR 0x0A])
        else None),
      node = ''host'', clock = ''now''\<rparr>"

text \<open>No compute process; docker answers the version probe, and \<open>docker ps\<close> fails.\<close>

definition docker_down_world :: world where
  "docker_down_world =
     \<lparr>run = (\<lambda>c.
        if c = gpu_command then Some (device_line @ [CHR 0x0A])
        else if c = apps_command then Some []
        else if c = docker_probe
          then Some (''Docker version 24.0.5, build ced0996'' @ [CHR 0x0A])
        else None),
      node = ''host'', clock = ''now''\<rparr>"

text \<open>Scenario D of the specification: one compute process whose pid is not supported.\<close>

definition scenario_d_row :: string where
  "scenario_d_row = ''GPU-aaa, Not Supported, Not Supported''"

definition scenario_d_world :: world where
  "scenario_d_world =
     \<lparr>run = (\<lambda>c.
        if c = gpu_command then Some (device_line @ [CHR 0x0A])
        else if c = apps_command then Some (scenario_d_row @ [CHR 0x0A])
        else None),
      node = ''host'', clock = ''now''\<rparr>"

definition scenario_d_entry :: pydict where
  "scenario_d_entry =
     [(''gpu_uuid'', Some ''GPU-aaa''), (''pid'', None), (''used_memory'', None),
      (''user'', None), (''comm'', None)]"

text \<open>Devices that do not support one of the three kinds of report.\<close>

definition no_utilization_line :: string where
  "no_utilization_line = ''0, GPU-aaa, Tesla K80, 40, Not Supported, 0, 12000''"

definition no_memory_line :: string where
  "no_memory_line = ''0, GPU-aaa, Tesla K80, 40, 10, Not Supported, Not Supported''"

definition no_utilization_gpu :: GPUStat where
  "no_utilization_gpu =
     \<lparr>entry =
        [(''index'', Some ''0''), (''uuid'', Some ''GPU-aaa''), (''name'', Some ''Tesla K80''),
         (''temperature.gpu'', Some ''40''), (''utilization.gpu'', Some ''??''),
         (''memory.used'', Some ''0''), (''memory.total'', Some ''12000'')],
      processes = []\<rparr>"

definition no_memory_gpu :: GPUStat where
  "no_memory_gpu =
     \<lparr>entry =
        [(''index'', Some ''0''), (''uuid'', Some ''GPU-aaa''), (''name'', Some ''Tesla K80''),
         (''temperature.gpu'', Some ''40''), (''utilization.gpu'', Some ''10''),
         (''memory.used'', None), (''memory.total'', None)],
      processes = []\<rparr>"

definition process_10 :: pydict where
  "process_10 =
     [(''gpu_uuid'', Some ''GPU-aaa''), (''pid'', Some ''10''), (''used_memory'', Some ''5''),
      (''user'', Some ''alice''), (''comm'', Some ''python'')]"

definition process_11 :: pydict where
  "process_11 =
     [(''gpu_uuid'', Some ''GPU-zzz''), (''pid'', Some ''11''), (''used_memory'', Some ''6''),
      (''user'', Some ''bob''), (''comm'', Some ''blender'')]"

definition process_1234 :: pydict where
  "process_1234 =
     [(''gpu_uuid'', Some ''GPU-aaa''), (''pid'', Some ''1234''), (''used_memory'', Some ''256''),
      (''user'', Some ''UNKNOWN''), (''comm'', Some [])]"

definition boundary_gpu :: GPUStat where
  "boundary_gpu = \<lparr>entry = device_entry, processes = []\<rparr>"


text \<open>
  Two compute processes in lxc containers; the control-group lookup fails for pid 10 and
  answers for pid 11. In the second world the lookup for pid 10 answers too.
\<close>

definition lxc_world :: world where
  "lxc_world =
     \<lparr>run = (\<lambda>c.
        if c = gpu_command then Some (device_line @ [CHR 0x0A])
        else if c = apps_command
          then Some (''GPU-aaa, 10, 5'' @ [CHR 0x0A] @ ''GPU-aaa, 11, 6'' @ [CHR 0x0A])
        else if c = ps_command [10, 11]
          then Some (ps_header @ [CHR 0x0A] @ ''     10 alice            python'' @ [CHR 0x0A] @
                     ''     11 bob              blender'' @ [CHR 0x0A])
        else if c = lxc_probe then Some (''4.0.2'' @ [CHR 0x0A])
        else if c = cgroup_command 11
          then Some (''11 bob      11:hugetlb:/lxc/pablo_juk,1'' @ [CHR 0x0A])
        else None),
      node = ''host'', clock = ''now''\<rparr>"

definition lxc_world_answering :: world where
  "lxc_world_answering =
     lxc_world\<lparr>run := (run lxc_world)
       (cgroup_command 10 := Some (''10 alice    11:hugetlb:/lxc/box,1'' @ [CHR 0x0A]))\<rparr>"

definition lxc_pid_map :: pidmap where
  "lxc_pid_map = [(10, Some (''alice'', ''python'')), (11, Some (''bob'', ''blender''))]"

definition process_10_lxc :: pydict where
  "process_10_lxc =
     [(''gpu_uuid'', Some ''GPU-aaa''), (''pid'', Some ''10''), (''used_memory'', Some ''5''),
      (''user'', Some ''alice''), (''comm'', Some ''python'')]"

definition process_11_lxc :: pydict where
  "process_11_lxc =
     [(''gpu_uuid'', Some ''GPU-aaa''), (''pid'', Some ''11''), (''used_memory'', Some ''6''),
      (''user'', Some ''bob/pablo_juk''), (''comm'', Some ''blender'')]"

definition docker_version_text :: string where
  "docker_version_text = ''Docker version 24.0.5, build ced0996'' @ [CHR 0x0A]"

text \<open>The same world, with an answer to a control-group lookup.\<close>

definition docker_down_world_2 :: world where
  "docker_down_world_2 =
     docker_down_world\<lparr>run := (run docker_down_world)
       (cgroup_command 10 := Some (''10 alice    11:hugetlb:/lxc/box,1'' @ [CHR 0x0A]))\<rparr>"

section \<open>Device parsing and \<open>GPUStat.__init__\<close>: the facts\<close>

lemma split_where_nonempty: "split_where P s \<noteq> []"
  by (induction s) (auto split: list.splits)

lemma split_on_nonempty: "split_on c s \<noteq> []"
  by (simp add: split_on_def split_where_nonempty)

lemma clear_unsupported_zip:
  "clear_unsupported (zip ks (map Some vs)) =
     Inr (zip ks (map (\<lambda>s. if py_in not_supported s then None else Some s) vs))"
proof (induction ks arbitrary: vs)
  case Nil
  show ?case by simp
next
  case (Cons k ks)
  show ?case
  proof (cases vs)
    case Nil
    then show ?thesis by simp
  next
    case (Cons v vs')
    with Cons.IH [of vs'] show ?thesis by simp
  qed
qed

lemma map_of_zip_index:
  assumes "distinct ks" and "i < length ks" and "i < length xs"
  shows "map_of (zip ks xs) (ks ! i) = Some (xs ! i)"
  using assms
proof (induction ks arbitrary: xs i)
  case Nil
  then show ?case by simp
next
  case (Cons k ks)
  then obtain x xs' where xs: "xs = x # xs'" by (cases xs) auto
  show ?case
  proof (cases i)
    case 0
    then show ?thesis by (simp add: xs)
  next
    case (Suc j)
    with Cons.prems xs have "j < length ks" "j < length xs'" "distinct ks" "ks ! j \<noteq> k"
      by auto
    with Cons.IH [of j xs'] Suc xs show ?thesis by simp
  qed
qed

lemma map_of_zip_short:
  assumes "length xs \<le> i" and "i < length ks" and "distinct ks"
  shows "map_of (zip ks xs) (ks ! i) = None"
proof -
  have "ks ! i \<notin> set (take (length xs) ks)"
    using assms by (auto simp: in_set_conv_nth distinct_conv_nth)
  moreover have "map fst (zip ks xs) = take (length xs) ks"
    using assms by (simp add: map_fst_zip_take min_def)
  ultimately show ?thesis
    by (metis map_of_eq_None_iff set_map)
qed

lemma distinct_gpu_query_columns: "distinct gpu_query_columns"
  by (simp add: gpu_query_columns_def)

lemma gpu_entry_cleared:
  "clear_unsupported (gpu_entry_of_line line) =
     Inr (zip gpu_query_columns
            (map (\<lambda>s. if py_in not_supported s then None else Some s)
               (map (\<lambda>r. strip (strip r)) (split_on CHR '','' line))))"
  using clear_unsupported_zip [of gpu_query_columns "map (\<lambda>r. strip (strip r)) (split_on CHR '','' line)"]
  by (simp add: gpu_entry_of_line_def comp_def)

lemma short_line_KeyError:
  assumes "length (split_on CHR '','' line) < 5"
  shows "GPUStat_init (gpu_entry_of_line line) = Inl KeyError"
proof -
  have "map_of (zip gpu_query_columns
            (map (\<lambda>s. if py_in not_supported s then None else Some s)
               (map (\<lambda>r. strip (strip r)) (split_on CHR '','' line)))) (gpu_query_columns ! 4) = None"
    using assms by (intro map_of_zip_short) (simp_all add: gpu_query_columns_def)
  then show ?thesis
    by (simp add: GPUStat_init_def gpu_entry_cleared getitem_def gpu_query_columns_def)
qed

lemma GPUStat_init_line_cases:
  "GPUStat_init (gpu_entry_of_line line) = Inl KeyError \<or> (\<exists>g. GPUStat_init (gpu_entry_of_line line) = Inr g)"
  by (auto simp: GPUStat_init_def gpu_entry_cleared getitem_def split: option.splits)

lemma parse_gpu_lines_short:
  assumes "line \<in> set ls" and "line \<noteq> []" and "length (split_on CHR '','' line) < 5"
  shows "parse_gpu_lines ls = Inl KeyError"
  using assms
proof (induction ls)
  case Nil
  then show ?case by simp
next
  case (Cons l ls)
  show ?case
  proof (cases "l = line")
    case True
    with Cons.prems show ?thesis by (simp add: short_line_KeyError)
  next
    case False
    with Cons have rest: "parse_gpu_lines ls = Inl KeyError" by simp
    from GPUStat_init_line_cases [of l] show ?thesis
      by (auto simp: rest)
  qed
qed

lemma strip_idem: "strip (strip s) = strip s"
proof -
  define a where "a = dropWhile is_space s"
  define b where "b = dropWhile is_space (rev a)"
  have t: "strip s = rev b" by (simp add: strip_def a_def b_def)
  have b_hd: "b = [] \<or> \<not> is_space (hd b)"
    unfolding b_def using hd_dropWhile by blast
  have a_hd: "a = [] \<or> \<not> is_space (hd a)"
    unfolding a_def using hd_dropWhile by blast
  have "b = [] \<or> \<not> is_space (last b)"
  proof (cases "b = []")
    case True then show ?thesis by simp
  next
    case False
    obtain p where "rev a = p @ b"
      unfolding b_def by (metis takeWhile_dropWhile_id)
    with False have "last b = last (rev a)" by simp
    moreover from False have "a \<noteq> []" unfolding b_def by auto
    ultimately have "last b = hd a" by (simp add: last_rev)
    with a_hd \<open>a \<noteq> []\<close> show ?thesis by simp
  qed
  then have "rev b = [] \<or> \<not> is_space (hd (rev b))"
    by (auto simp: hd_rev)
  then have 1: "dropWhile is_space (rev b) = rev b"
    by (simp add: dropWhile_eq_self_iff)
  from b_hd have 2: "dropWhile is_space b = b"
    by (simp add: dropWhile_eq_self_iff)
  show ?thesis
    unfolding t by (simp add: strip_def 1 2)
qed

lemma parse_gpu_lines_map:
  "parse_gpu_lines ls = Inr gs \<Longrightarrow>
   map Inr gs = map (\<lambda>l. GPUStat_init (gpu_entry_of_line l)) (filter (\<lambda>l. l \<noteq> []) ls)"
proof (induction ls arbitrary: gs)
  case Nil
  then show ?case by simp
next
  case (Cons l ls)
  show ?case
  proof (cases "l = []")
    case True
    with Cons show ?thesis by simp
  next
    case False
    with Cons.prems obtain g gs' where
      "GPUStat_init (gpu_entry_of_line l) = Inr g" "parse_gpu_lines ls = Inr gs'" "gs = g # gs'"
      by (cases "GPUStat_init (gpu_entry_of_line l)"; cases "parse_gpu_lines ls") auto
    with Cons.IH [of gs'] False show ?thesis by simp
  qed
qed

lemma GPUStat_init_line:
  assumes "GPUStat_init (gpu_entry_of_line line) = Inr g"
    and "i < length (split_on CHR '','' line)" and "i < length gpu_query_columns"
  shows "map_of (entry g) (gpu_query_columns ! i) =
           Some (if py_in not_supported (strip (split_on CHR '','' line ! i))
                 then (if gpu_query_columns ! i = ''utilization.gpu'' then Some ''??'' else None)
                 else Some (strip (split_on CHR '','' line ! i)))"
proof -
  define vs where "vs = map (\<lambda>s. if py_in not_supported s then None else Some s)
               (map (\<lambda>r. strip (strip r)) (split_on CHR '','' line))"
  have cl: "clear_unsupported (gpu_entry_of_line line) = Inr (zip gpu_query_columns vs)"
    by (simp add: gpu_entry_cleared vs_def)
  have at_i: "map_of (zip gpu_query_columns vs) (gpu_query_columns ! i) = Some (vs ! i)"
    using assms(2,3) by (intro map_of_zip_index) (simp_all add: distinct_gpu_query_columns vs_def)
  have vi: "vs ! i = (if py_in not_supported (strip (split_on CHR '','' line ! i)) then None
                      else Some (strip (split_on CHR '','' line ! i)))"
    using assms(2) by (simp add: vs_def strip_idem)
  show ?thesis
  proof (cases "map_of (zip gpu_query_columns vs) ''utilization.gpu''")
    case None
    with assms(1) show ?thesis
      by (simp add: GPUStat_init_def cl getitem_def)
  next
    case (Some u)
    show ?thesis
    proof (cases u)
      case None
      with Some assms(1) have g: "entry g = AList.update ''utilization.gpu'' (Some ''??'') (zip gpu_query_columns vs)"
        by (auto simp: GPUStat_init_def cl getitem_def)
      show ?thesis
      proof (cases "gpu_query_columns ! i = ''utilization.gpu''")
        case True
        with at_i Some None have "vs ! i = None" by simp
        with vi True show ?thesis
          by (simp add: g update_conv' split: if_splits)
      next
        case False
        with at_i vi show ?thesis
          by (simp add: g update_conv')
      qed
    next
      case (Some s)
      with \<open>map_of (zip gpu_query_columns vs) ''utilization.gpu'' = Some u\<close> assms(1)
      have g: "entry g = zip gpu_query_columns vs"
        by (auto simp: GPUStat_init_def cl getitem_def)
      show ?thesis
      proof (cases "gpu_query_columns ! i = ''utilization.gpu''")
        case True
        with at_i \<open>map_of (zip gpu_query_columns vs) ''utilization.gpu'' = Some u\<close> Some
        have "vs ! i = Some s" by simp
        with vi True at_i show ?thesis
          by (simp add: g split: if_splits)
      next
        case False
        with at_i vi show ?thesis
          by (simp add: g)
      qed
    qed
  qed
qed

section \<open>The process listing: the facts\<close>

lemma bind_eq_Inr: "bind m f = Inr y \<longleftrightarrow> (\<exists>x. m = Inr x \<and> f x = Inr y)"
  by (cases m) auto

lemma bind_eq_Inl: "bind m f = Inl e \<longleftrightarrow> m = Inl e \<or> (\<exists>x. m = Inr x \<and> f x = Inl e)"
  by (cases m) auto

lemma known_update: "known m \<Longrightarrow> known (AList.update k (Some v) m)"
  unfolding known_def by (induction m) auto

lemma known_build_pid_map: "build_pid_map m es = Inr m' \<Longrightarrow> known m \<Longrightarrow> known m'"
proof (induction es arbitrary: m)
  case Nil
  then show ?case by simp
next
  case (Cons e es)
  then show ?case
    by (auto simp: known_update bind_eq_Inr split: option.splits if_splits)
qed

lemma known_read_ps_lines: "read_ps_lines m ls = Inr m' \<Longrightarrow> known m \<Longrightarrow> known m'"
proof (induction ls arbitrary: m)
  case Nil
  then show ?case by simp
next
  case (Cons l ls)
  then show ?case
    by (auto simp: known_update bind_eq_Inr split: list.splits if_splits)
qed

lemma known_os_identities: "os_identities w es = Inr m \<Longrightarrow> known m"
proof -
  have k0: "known []" by (simp add: known_def)
  assume "os_identities w es = Inr m"
  then show ?thesis
    by (auto simp: os_identities_def bind_eq_Inr split: if_splits
        dest: known_build_pid_map [OF _ k0] known_read_ps_lines)
qed

lemma resolve_pid_Some: "v \<noteq> None \<Longrightarrow> resolve_pid w lxc docker d pid v \<noteq> None"
  by (auto simp: resolve_pid_def split: option.splits sum.splits prod.splits)

lemma known_resolve_containers: "known m \<Longrightarrow> known (resolve_containers w lxc docker d m)"
  unfolding known_def resolve_containers_def
  by (auto simp: image_iff dest!: sym [of None] ) (metis resolve_pid_Some snd_conv image_eqI)+

lemma known_lookup: "known m \<Longrightarrow> map_of m k = Some v \<Longrightarrow> v \<noteq> None"
  unfolding known_def by (metis map_of_SomeD snd_conv image_eqI)

lemma annotate_entries_keeps:
  "annotate_entries m es = Inr r \<Longrightarrow> known m \<Longrightarrow>
   list_all2 (\<lambda>e x. \<forall>p. map_of e ''pid'' = Some (Some p) \<longrightarrow>
                (if py_in not_supported p then x = blank_entry e
                 else \<exists>n i. py_int p = Inr n \<and> map_of m n = Some (Some i) \<and> x = update_entry e i)) es r"
proof (induction es arbitrary: r)
  case Nil
  then show ?case by simp
next
  case (Cons e es)
  from Cons.prems(1) obtain p where p: "map_of e ''pid'' = Some (Some p)"
    by (auto simp: bind_eq_Inr getitem_def split: option.splits)
  show ?case
  proof (cases "py_in not_supported p")
    case True
    with Cons.prems(1) p obtain r' where "annotate_entries m es = Inr r'" "r = blank_entry e # r'"
      by (auto simp: bind_eq_Inr getitem_def)
    with Cons.IH [of r'] Cons.prems(2) p True show ?thesis by simp
  next
    case False
    with Cons.prems(1) p obtain n v where n: "py_int p = Inr n" "map_of m n = Some v"
      by (auto simp: bind_eq_Inr getitem_def split: option.splits)
    with Cons.prems(2) obtain i where i: "v = Some i"
      using known_lookup by fastforce
    with Cons.prems(1) p False n obtain r' where
      "annotate_entries m es = Inr r'" "r = update_entry e i # r'"
      by (auto simp: bind_eq_Inr getitem_def)
    with Cons.IH [of r'] Cons.prems(2) p False n i show ?thesis
      by (simp del: split_paired_Ex)
  qed
qed

lemma running_processes_keeps:
  assumes "running_processes w = Inr es" and "run w apps_command = Some out"
  shows "\<exists>m. list_all2 (\<lambda>e x. \<forall>p. map_of e ''pid'' = Some (Some p) \<longrightarrow>
                (if py_in not_supported p then x = blank_entry e
                 else \<exists>n i. py_int p = Inr n \<and> map_of m n = Some (Some i) \<and> x = update_entry e i))
           (parse_process_entries (strip out)) es"
proof -
  from assms obtain m0 lx dk d where
    m0: "os_identities w (parse_process_entries (strip out)) = Inr m0" and
    an: "annotate_entries
           (if truthy lx \<or> truthy dk then resolve_containers w (truthy lx) (truthy dk) d m0 else m0)
           (parse_process_entries (strip out)) = Inr es"
    by (auto simp: running_processes_def query_process_entries_def exec_command_def the_text_def
        bind_eq_Inr simp del: split_paired_Ex)
  from m0 have "known m0" by (rule known_os_identities)
  then have "known (if truthy lx \<or> truthy dk then resolve_containers w (truthy lx) (truthy dk) d m0 else m0)"
    by (simp add: known_resolve_containers)
  with an show ?thesis
    by (blast dest: annotate_entries_keeps)
qed

lemma distinct_apps_query_columns: "distinct apps_query_columns"
  by (simp add: apps_query_columns_def)

section \<open>Rendering: the facts\<close>


section \<open>Container resolution: the facts\<close>

lemma digit_char: "d < 10 \<Longrightarrow> digit_val (''0123456789'' ! d) = d"
proof -
  assume "d < 10"
  then have "d \<in> {0, 1, 2, 3, 4, 5, 6, 7, 8, 9}" by auto
  then show ?thesis by (auto simp: digit_val_def)
qed

lemma digit_char_not_minus: "d < 10 \<Longrightarrow> ''0123456789'' ! d \<noteq> CHR ''-''"
proof -
  assume "d < 10"
  then have "d \<in> {0, 1, 2, 3, 4, 5, 6, 7, 8, 9}" by auto
  then show ?thesis by auto
qed

lemma str_nat_value: "foldl (\<lambda>a c. a * 10 + digit_val c) 0 (str_nat n) = n"
proof (induction n rule: str_nat.induct)
  case (1 n)
  show ?case
  proof (cases "n < 10")
    case True
    then show ?thesis by (subst str_nat.simps) (simp add: digit_char)
  next
    case False
    with 1 have "foldl (\<lambda>a c. a * 10 + digit_val c) 0 (str_nat (n div 10)) = n div 10"
      by simp
    with False show ?thesis by (subst str_nat.simps) (simp add: digit_char)
  qed
qed

lemma str_nat_inj: "str_nat a = str_nat b \<Longrightarrow> a = b"
  by (metis str_nat_value)

lemma str_nat_hd: "\<exists>c cs. str_nat n = c # cs \<and> c \<noteq> CHR ''-''"
proof (induction n rule: str_nat.induct)
  case (1 n)
  show ?case
  proof (cases "n < 10")
    case True
    then show ?thesis by (subst str_nat.simps) (simp add: digit_char_not_minus)
  next
    case False
    with 1 obtain c cs where "str_nat (n div 10) = c # cs" "c \<noteq> CHR ''-''" by auto
    with False show ?thesis by (subst str_nat.simps) simp
  qed
qed

lemma str_int_inj: "str_int a = str_int b \<Longrightarrow> a = b"
proof -
  assume eq: "str_int a = str_int b"
  obtain c cs where a: "str_nat (nat a) = c # cs" "c \<noteq> CHR ''-''" using str_nat_hd by blast
  obtain d ds where b: "str_nat (nat b) = d # ds" "d \<noteq> CHR ''-''" using str_nat_hd by blast
  show ?thesis
  proof (cases "a < 0"; cases "b < 0")
    assume "a < 0" "b < 0"
    with eq have "nat (- a) = nat (- b)" by (auto simp: str_int_def dest: str_nat_inj)
    with \<open>a < 0\<close> \<open>b < 0\<close> show ?thesis by simp
  next
    assume "a < 0" "\<not> b < 0"
    with eq b show ?thesis by (simp add: str_int_def)
  next
    assume "\<not> a < 0" "b < 0"
    with eq a show ?thesis by (simp add: str_int_def)
  next
    assume "\<not> a < 0" "\<not> b < 0"
    with eq have "nat a = nat b" by (auto simp: str_int_def dest: str_nat_inj)
    with \<open>\<not> a < 0\<close> \<open>\<not> b < 0\<close> show ?thesis by simp
  qed
qed

lemma cgroup_command_inj: "cgroup_command p = cgroup_command q \<Longrightarrow> p = q"
  by (simp add: cgroup_command_def str_int_inj)

lemma cgroup_command_other:
  "cgroup_command p \<noteq> apps_command"
  "cgroup_command p \<noteq> gpu_command"
  "cgroup_command p \<noteq> ps_command pids"
  "cgroup_command p \<noteq> lxc_probe"
  "cgroup_command p \<noteq> docker_probe"
  "cgroup_command p \<noteq> docker_ps_command"
  by (simp_all add: cgroup_command_def apps_command_def gpu_command_def ps_command_def
      lxc_probe_def docker_probe_def docker_ps_command_def)

lemma map_of_resolve_containers:
  "map_of (resolve_containers w lxc docker d m) k =
     map_option (resolve_pid w lxc docker d k) (map_of m k)"
  unfolding resolve_containers_def by (induction m) auto

lemma resolve_pid_None_iff: "resolve_pid w lxc docker d k v = None \<longleftrightarrow> v = None"
  by (auto simp: resolve_pid_def split: option.splits sum.splits prod.splits)

lemma resolve_pid_failed:
  assumes "run w (cgroup_command p) = None \<or>
           (\<exists>out e. run w (cgroup_command p) = Some out \<and> cgroup_fields out = Inl e)"
  shows "resolve_pid w lxc docker d p v = v"
  using assms by (auto simp: resolve_pid_def)

lemma resolve_pid_cong:
  "run w0 (cgroup_command q) = run w (cgroup_command q) \<Longrightarrow>
   resolve_pid w0 lxc docker d q v = resolve_pid w lxc docker d q v"
  by (simp add: resolve_pid_def)

lemma annotate_entries_shape:
  assumes "\<And>k. map_option (\<lambda>v. v = None) (map_of m k) = map_option (\<lambda>v. v = None) (map_of m' k)"
  shows "annotate_entries m es = Inl e \<longleftrightarrow> annotate_entries m' es = Inl e"
proof (induction es)
  case Nil
  show ?case by simp
next
  case (Cons x es)
  show ?case
  proof (cases "getitem x ''pid''")
    case (Inl a)
    then show ?thesis by simp
  next
    case (Inr pv)
    show ?thesis
    proof (cases pv)
      case None
      with Inr show ?thesis by simp
    next
      case (Some p)
      show ?thesis
      proof (cases "py_in not_supported p")
        case True
        with Inr Some Cons show ?thesis by (simp add: bind_eq_Inl)
      next
        case False
        show ?thesis
        proof (cases "py_int p")
          case (Inl a)
          with Inr Some False show ?thesis by simp
        next
          case n: (Inr n)
          from assms [of n] show ?thesis
            using Inr Some False n Cons
            by (cases "map_of m n"; cases "map_of m' n")
               (auto simp: bind_eq_Inl getitem_def split: option.splits)
        qed
      qed
    qed
  qed
qed

lemma bind_Inl_cong:
  "(\<And>x. m = Inr x \<Longrightarrow> (f x = Inl e \<longleftrightarrow> g x = Inl e)) \<Longrightarrow>
   (bind m f = Inl e \<longleftrightarrow> bind m g = Inl e)"
  by (cases m) auto

lemma running_processes_cgroup_independent:
  assumes same: "\<And>c. c \<noteq> cgroup_command p \<Longrightarrow> run w0 c = run w c"
  shows "running_processes w0 = Inl e \<longleftrightarrow> running_processes w = Inl e"
proof -
  have ex: "exec_command w0 c b = exec_command w c b" if "c \<noteq> cgroup_command p" for c b
    using same [OF that] by (simp add: exec_command_def)
  have a: "exec_command w0 apps_command b = exec_command w apps_command b" for b
    by (rule ex) (rule cgroup_command_other(1) [symmetric])
  have ps: "exec_command w0 (ps_command pids) b = exec_command w (ps_command pids) b" for pids b
    by (rule ex) (rule cgroup_command_other(3) [symmetric])
  have l: "exec_command w0 lxc_probe b = exec_command w lxc_probe b" for b
    by (rule ex) (rule cgroup_command_other(4) [symmetric])
  have d: "exec_command w0 docker_probe b = exec_command w docker_probe b" for b
    by (rule ex) (rule cgroup_command_other(5) [symmetric])
  have dp: "exec_command w0 docker_ps_command b = exec_command w docker_ps_command b" for b
    by (rule ex) (rule cgroup_command_other(6) [symmetric])
  have q: "query_process_entries w0 = query_process_entries w"
    by (simp only: query_process_entries_def a)
  have o: "os_identities w0 es = os_identities w es" for es
    by (simp only: os_identities_def ps)
  have dl: "docker_listing w0 v = docker_listing w v" for v
    by (simp only: docker_listing_def dp)
  have an: "annotate_entries (if c then resolve_containers w0 lx dk di m else m) es = Inl e \<longleftrightarrow>
            annotate_entries (if c then resolve_containers w lx dk di m else m) es = Inl e"
    for c lx dk di m es
  proof (cases c)
    case True
    have "annotate_entries (resolve_containers w0 lx dk di m) es = Inl e \<longleftrightarrow>
          annotate_entries (resolve_containers w lx dk di m) es = Inl e"
      by (rule annotate_entries_shape)
         (simp add: map_of_resolve_containers option.map_comp comp_def resolve_pid_None_iff)
    with True show ?thesis by simp
  next
    case False
    then show ?thesis by simp
  qed
  show ?thesis
    unfolding running_processes_def q o l d dl
    by (intro bind_Inl_cong an)
qed

section \<open>Failing commands: the facts\<close>

lemma GPUStat_init_uuid:
  assumes "GPUStat_init (gpu_entry_of_line l) = Inr g"
  shows "\<exists>v. uuid g = Inr v"
proof -
  have "\<not> length (split_on CHR '','' l) < 5"
    using assms short_line_KeyError by fastforce
  then have "1 < length (split_on CHR '','' l)" by simp
  moreover have "1 < length gpu_query_columns" by (simp add: gpu_query_columns_def)
  ultimately have "\<exists>v. map_of (entry g) (gpu_query_columns ! 1) = Some v"
    using GPUStat_init_line [OF assms] by blast
  then show ?thesis
    by (auto simp: uuid_def getitem_def gpu_query_columns_def)
qed

lemma parse_gpu_lines_uuid:
  "parse_gpu_lines ls = Inr gs \<Longrightarrow> g \<in> set gs \<Longrightarrow> \<exists>v. uuid g = Inr v"
proof (induction ls arbitrary: gs)
  case Nil
  then show ?case by simp
next
  case (Cons l ls)
  show ?case
  proof (cases "l = []")
    case True
    with Cons show ?thesis by simp
  next
    case False
    with Cons.prems(1) obtain g0 gs' where
      *: "GPUStat_init (gpu_entry_of_line l) = Inr g0" "parse_gpu_lines ls = Inr gs'" "gs = g0 # gs'"
      by (auto simp: bind_eq_Inr)
    with Cons.prems(2) have "g = g0 \<or> g \<in> set gs'" by simp
    then show ?thesis
      using * Cons.IH [of gs'] GPUStat_init_uuid by blast
  qed
qed

lemma index_gpus_total:
  "(\<And>g. g \<in> set gl \<Longrightarrow> \<exists>v. uuid g = Inr v) \<Longrightarrow> \<exists>gs. index_gpus acc gl = Inr gs"
proof (induction gl arbitrary: acc)
  case Nil
  show ?case by simp
next
  case (Cons g gl)
  from Cons.prems [of g] obtain v where "uuid g = Inr v" by auto
  moreover from Cons.IH [of "AList.update v g acc"] Cons.prems
  obtain gs where "index_gpus (AList.update v g acc) gl = Inr gs" by auto
  ultimately show ?case by simp
qed

lemma query_gpu_list_indexed:
  assumes "query_gpu_list w = Inr gl"
  shows "\<exists>gs. index_gpus [] gl = Inr gs"
proof -
  from assms obtain ls where "parse_gpu_lines ls = Inr gl"
    by (auto simp: query_gpu_list_def bind_eq_Inr)
  then show ?thesis
    by (intro index_gpus_total) (rule parse_gpu_lines_uuid)
qed

lemma new_query_process_failure:
  assumes "query_gpu_list w = Inr gl" and "running_processes w = Inl e"
  shows "new_query w = Inl e"
proof -
  from query_gpu_list_indexed [OF assms(1)] obtain gs where "index_gpus [] gl = Inr gs" ..
  with assms show ?thesis
    by (simp add: new_query_def GPUStatCollection_init_def update_process_information_def)
qed

lemma running_processes_required:
  assumes "run w apps_command = None \<or>
           (\<exists>es m. query_process_entries w = Inr es \<and> build_pid_map [] es = Inr m \<and> m \<noteq> [] \<and>
              run w (ps_command (map fst m)) = None) \<or>
           (\<exists>es m v. query_process_entries w = Inr es \<and> os_identities w es = Inr m \<and>
              run w docker_probe = Some v \<and> strip v \<noteq> [] \<and> run w docker_ps_command = None)"
  shows "running_processes w = Inl CalledProcessError"
  using assms
proof (elim disjE exE conjE)
  assume "run w apps_command = None"
  then show ?thesis
    by (simp add: running_processes_def query_process_entries_def exec_command_def)
next
  fix es m
  assume "query_process_entries w = Inr es" "build_pid_map [] es = Inr m" "m \<noteq> []"
    "run w (ps_command (map fst m)) = None"
  then show ?thesis
    by (simp add: running_processes_def os_identities_def exec_command_def)
next
  fix es m v
  assume "query_process_entries w = Inr es" "os_identities w es = Inr m"
    "run w docker_probe = Some v" "strip v \<noteq> []" "run w docker_ps_command = None"
  then show ?thesis
    by (cases "run w lxc_probe")
       (simp_all add: running_processes_def exec_command_def docker_listing_def truthy_def)
qed

lemma probes_other:
  "gpu_command \<noteq> lxc_probe" "gpu_command \<noteq> docker_probe"
  "apps_command \<noteq> lxc_probe" "apps_command \<noteq> docker_probe"
  "ps_command pids \<noteq> lxc_probe" "ps_command pids \<noteq> docker_probe"
  "docker_ps_command \<noteq> lxc_probe" "docker_ps_command \<noteq> docker_probe"
  "cgroup_command p \<noteq> lxc_probe" "cgroup_command p \<noteq> docker_probe"
  by (simp_all add: cgroup_command_def apps_command_def gpu_command_def ps_command_def
      lxc_probe_def docker_probe_def docker_ps_command_def)

lemma run_quiet_probes:
  "c \<noteq> lxc_probe \<Longrightarrow> c \<noteq> docker_probe \<Longrightarrow> run (quiet_probes w) c = run w c"
  by (simp add: quiet_probes_def)

lemma exec_quiet_probes:
  "c \<noteq> lxc_probe \<Longrightarrow> c \<noteq> docker_probe \<Longrightarrow>
   exec_command (quiet_probes w) c b = exec_command w c b"
  by (simp add: exec_command_def run_quiet_probes)

lemma probe_quiet_probes:
  assumes "c = lxc_probe \<or> c = docker_probe"
  shows "\<exists>x y. exec_command (quiet_probes w) c True = Inr x \<and> exec_command w c True = Inr y \<and>
                truthy x = truthy y"
  using assms
  by (cases "run w c") (auto simp: exec_command_def quiet_probes_def truthy_def strip_def)

lemma resolve_quiet_probes:
  "resolve_containers (quiet_probes w) lx dk di m = resolve_containers w lx dk di m"
  by (simp add: resolve_containers_def resolve_pid_def run_quiet_probes probes_other)

lemma docker_listing_quiet_probes:
  "truthy x = truthy y \<Longrightarrow> docker_listing (quiet_probes w) x = docker_listing w y"
  by (simp add: docker_listing_def exec_quiet_probes probes_other)

lemma running_processes_quiet_probes:
  "running_processes (quiet_probes w) = running_processes w"
proof -
  obtain x y where l: "exec_command (quiet_probes w) lxc_probe True = Inr x"
      "exec_command w lxc_probe True = Inr y" "truthy x = truthy y"
    using probe_quiet_probes [of lxc_probe w] by auto
  obtain x' y' where d: "exec_command (quiet_probes w) docker_probe True = Inr x'"
      "exec_command w docker_probe True = Inr y'" "truthy x' = truthy y'"
    using probe_quiet_probes [of docker_probe w] by auto
  have q: "query_process_entries (quiet_probes w) = query_process_entries w"
    by (simp add: query_process_entries_def exec_quiet_probes probes_other)
  have ps: "exec_command (quiet_probes w) (ps_command pids) b = exec_command w (ps_command pids) b"
    for pids b
    by (simp add: exec_quiet_probes probes_other)
  have o: "os_identities (quiet_probes w) es = os_identities w es" for es
    by (simp only: os_identities_def ps)
  show ?thesis
    unfolding running_processes_def q o l(1,2) d(1,2) bind.simps l(3) d(3)
      docker_listing_quiet_probes [OF d(3)] resolve_quiet_probes
    by (rule refl)
qed

lemma new_query_quiet_probes: "new_query (quiet_probes w) = new_query w"
proof -
  have g: "query_gpu_list (quiet_probes w) = query_gpu_list w"
    by (simp add: query_gpu_list_def exec_quiet_probes probes_other)
  have n: "node (quiet_probes w) = node w" "clock (quiet_probes w) = clock w"
    by (simp_all add: quiet_probes_def)
  show ?thesis
    by (simp add: new_query_def g GPUStatCollection_init_def update_process_information_def
        running_processes_quiet_probes n)
qed

section \<open>Claims about device parsing\<close>

text \<open>
  Claim C10. A device-query line that is not empty and has fewer than five comma-separated
  fields makes the construction of the device record raise: the dictionary zipped from the
  line has no key \<open>utilization.gpu\<close>, and line 57 reads that key. The \<open>KeyError\<close> leaves
  \<open>new_query\<close>, and \<open>print_gpustat\<close>, which catches only \<open>CalledProcessError\<close>, does not
  catch it.
\<close>

theorem short_device_line_raises:
  assumes "run w gpu_command = Some out"
    and "line \<in> set (lines (strip out))"
    and "line \<noteq> []"
    and "length (split_on CHR '','' line) < 5"
  shows "GPUStat_init (gpu_entry_of_line line) = Inl KeyError \<and>
         new_query w = Inl KeyError \<and>
         print_gpustat w a = Uncaught KeyError"
proof -
  have one: "GPUStat_init (gpu_entry_of_line line) = Inl KeyError"
    using assms(4) by (rule short_line_KeyError)
  have "parse_gpu_lines (lines (strip out)) = Inl KeyError"
    using assms(2-4) by (rule parse_gpu_lines_short)
  then have all: "new_query w = Inl KeyError"
    using assms(1) by (simp add: new_query_def query_gpu_list_def exec_command_def the_text_def)
  from one all show ?thesis
    by (simp add: print_gpustat_def)
qed

theorem short_device_line_raises_witness:
  "run short_world gpu_command = Some (''0, GPU-aaa, Tesla K80, 65'' @ [CHR 0x0A]) \<and>
   ''0, GPU-aaa, Tesla K80, 65''
     \<in> set (lines (strip (''0, GPU-aaa, Tesla K80, 65'' @ [CHR 0x0A]))) \<and>
   length (split_on CHR '','' ''0, GPU-aaa, Tesla K80, 65'') < 5 \<and>
   GPUStat_init (gpu_entry_of_line ''0, GPU-aaa, Tesla K80, 65'') = Inl KeyError \<and>
   new_query short_world = Inl KeyError \<and>
   print_gpustat short_world default_args = Uncaught KeyError"
proof -
  have h1: "run short_world gpu_command = Some (''0, GPU-aaa, Tesla K80, 65'' @ [CHR 0x0A])"
    by (simp add: short_world_def)
  have h2: "''0, GPU-aaa, Tesla K80, 65''
              \<in> set (lines (strip (''0, GPU-aaa, Tesla K80, 65'' @ [CHR 0x0A])))"
    by (simp add: strip_def is_space_def lines_def split_on_def)
  have h3: "''0, GPU-aaa, Tesla K80, 65'' \<noteq> []"
    by simp
  have h4: "length (split_on CHR '','' ''0, GPU-aaa, Tesla K80, 65'') < 5"
    by (simp add: split_on_def)
  from short_device_line_raises [OF h1 h2 h3 h4, of default_args] h1 h2 h4 show ?thesis
    by blast
qed

text \<open>
  Claim C7. In the record built from a device-query line, every field whose trimmed text
  contains the marker \<open>Not Supported\<close> is \<open>None\<close>, except the utilization, which is then
  the placeholder \<open>??\<close>; a field without the marker keeps its trimmed text.
\<close>

theorem unsupported_fields_normalised:
  assumes "GPUStat_init (gpu_entry_of_line line) = Inr g"
    and "i < length (split_on CHR '','' line)" and "i < length gpu_query_columns"
  shows "map_of (entry g) (gpu_query_columns ! i) =
           Some (if py_in not_supported (strip (split_on CHR '','' line ! i))
                 then (if gpu_query_columns ! i = ''utilization.gpu'' then Some ''??'' else None)
                 else Some (strip (split_on CHR '','' line ! i)))"
  using assms by (rule GPUStat_init_line)

theorem unsupported_fields_normalised_witness:
  "GPUStat_init (gpu_entry_of_line scenario_b_line) = Inr scenario_b_gpu \<and>
   4 < length (split_on CHR '','' scenario_b_line) \<and>
   4 < length gpu_query_columns \<and>
   map_of (entry scenario_b_gpu) ''utilization.gpu'' = Some (Some ''??'') \<and>
   map_of (entry scenario_b_gpu) ''temperature.gpu'' = Some None"
proof -
  have h1: "GPUStat_init (gpu_entry_of_line scenario_b_line) = Inr scenario_b_gpu"
    by (simp add: GPUStat_init_def gpu_entry_of_line_def scenario_b_line_def scenario_b_gpu_def
        gpu_query_columns_def split_on_def strip_def is_space_def not_supported_def getitem_def)
  have h2: "4 < length (split_on CHR '','' scenario_b_line)"
    by (simp add: scenario_b_line_def split_on_def)
  have h3: "4 < length gpu_query_columns"
    by (simp add: gpu_query_columns_def)
  have "map_of (entry scenario_b_gpu) ''temperature.gpu'' = Some None"
    by (simp add: scenario_b_gpu_def)
  with unsupported_fields_normalised [OF h1 h2 h3] h1 h2 h3 show ?thesis
    by (simp add: scenario_b_gpu_def)
qed

text \<open>
  Claim C9. The device records depend on nothing but the text of the device query: two
  query cycles that read the same text build the same sequence of records, and the sequence
  holds the record of each non-empty line, in the order of the lines.
\<close>

theorem device_parsing_deterministic:
  assumes "run w1 gpu_command = Some text" and "run w2 gpu_command = Some text"
  shows "query_gpu_list w1 = query_gpu_list w2 \<and>
         (\<forall>gs. query_gpu_list w1 = Inr gs \<longrightarrow>
            map Inr gs = map (\<lambda>l. GPUStat_init (gpu_entry_of_line l))
                           (filter (\<lambda>l. l \<noteq> []) (lines (strip text))))"
  using assms
  by (auto simp: query_gpu_list_def exec_command_def the_text_def dest: parse_gpu_lines_map)

theorem device_parsing_deterministic_witness:
  "run scenario_b_world gpu_command = Some (scenario_b_line @ [CHR 0x0A]) \<and>
   run scenario_b_later gpu_command = Some (scenario_b_line @ [CHR 0x0A]) \<and>
   query_gpu_list scenario_b_world = query_gpu_list scenario_b_later"
proof -
  have h1: "run scenario_b_world gpu_command = Some (scenario_b_line @ [CHR 0x0A])"
    by (simp add: scenario_b_world_def)
  have h2: "run scenario_b_later gpu_command = Some (scenario_b_line @ [CHR 0x0A])"
    by (simp add: scenario_b_later_def)
  from device_parsing_deterministic [OF h1 h2] h1 h2 show ?thesis
    by blast
qed

section \<open>Claims about the process listing\<close>

text \<open>
  Claim C6. When \<open>running_processes\<close> returns, it returns one entry for each non-empty row
  of the compute-process listing, in the order of the rows; the entry of a row whose pid
  field contains the marker \<open>Not Supported\<close> has \<open>None\<close> for \<open>pid\<close>, \<open>user\<close>, \<open>comm\<close> and
  \<open>used_memory\<close>, keeps the device id of the row, and is not dropped.
\<close>

theorem unsupported_pid_row_kept:
  assumes "running_processes w = Inr es"
    and "run w apps_command = Some out"
    and "rows = filter (\<lambda>l. l \<noteq> []) (lines (strip out))"
    and "i < length rows"
    and "1 < length (split_on CHR '','' (rows ! i))"
    and "py_in not_supported (strip (split_on CHR '','' (rows ! i) ! 1))"
  shows "length es = length rows \<and>
         map_of (es ! i) ''pid'' = Some None \<and>
         map_of (es ! i) ''user'' = Some None \<and>
         map_of (es ! i) ''comm'' = Some None \<and>
         map_of (es ! i) ''used_memory'' = Some None \<and>
         map_of (es ! i) ''gpu_uuid'' = Some (Some (strip (split_on CHR '','' (rows ! i) ! 0)))"
proof -
  let ?fs = "map (\<lambda>r. Some (strip r)) (split_on CHR '','' (rows ! i))"
  let ?e = "process_entry_of_line (rows ! i)"
  from running_processes_keeps [OF assms(1,2)] obtain m where
    rel: "list_all2 (\<lambda>e x. \<forall>p. map_of e ''pid'' = Some (Some p) \<longrightarrow>
                (if py_in not_supported p then x = blank_entry e
                 else \<exists>n i. py_int p = Inr n \<and> map_of m n = Some (Some i) \<and> x = update_entry e i))
           (parse_process_entries (strip out)) es" ..
  have len: "length (parse_process_entries (strip out)) = length rows"
    by (simp add: parse_process_entries_def assms(3))
  with rel have l: "length es = length rows"
    by (simp add: list_all2_lengthD [symmetric])
  have ei: "parse_process_entries (strip out) ! i = ?e"
    using assms(4) by (simp add: parse_process_entries_def assms(3))
  have "map_of (zip apps_query_columns ?fs) (apps_query_columns ! 1) = Some (?fs ! 1)"
    using assms(5) by (intro map_of_zip_index) (simp_all add: apps_query_columns_def)
  then have pid: "map_of ?e ''pid'' = Some (Some (strip (split_on CHR '','' (rows ! i) ! 1)))"
    using assms(5) by (simp add: process_entry_of_line_def apps_query_columns_def)
  have "map_of (zip apps_query_columns ?fs) (apps_query_columns ! 0) = Some (?fs ! 0)"
    by (intro map_of_zip_index) (simp_all add: apps_query_columns_def split_on_nonempty)
  moreover have "0 < length (split_on CHR '','' (rows ! i))"
    by (simp add: split_on_nonempty)
  ultimately have uu:
    "map_of ?e ''gpu_uuid'' = Some (Some (strip (split_on CHR '','' (rows ! i) ! 0)))"
    by (simp add: process_entry_of_line_def apps_query_columns_def)
  have "i < length (parse_process_entries (strip out))"
    using assms(4) len by simp
  from list_all2_nthD [OF rel this] pid assms(6) have "es ! i = blank_entry ?e"
    by (simp add: ei)
  with uu l show ?thesis
    by (simp add: blank_entry_def update_conv')
qed

theorem unsupported_pid_row_kept_witness:
  "running_processes scenario_d_world = Inr [scenario_d_entry] \<and>
   run scenario_d_world apps_command = Some (scenario_d_row @ [CHR 0x0A]) \<and>
   [scenario_d_row] = filter (\<lambda>l. l \<noteq> []) (lines (strip (scenario_d_row @ [CHR 0x0A]))) \<and>
   1 < length (split_on CHR '','' ([scenario_d_row] ! 0)) \<and>
   py_in not_supported (strip (split_on CHR '','' ([scenario_d_row] ! 0) ! 1)) \<and>
   length [scenario_d_entry] = length [scenario_d_row] \<and>
   map_of ([scenario_d_entry] ! 0) ''pid'' = Some None \<and>
   map_of ([scenario_d_entry] ! 0) ''used_memory'' = Some None"
proof -
  have h1: "running_processes scenario_d_world = Inr [scenario_d_entry]"
    by code_simp
  have h2: "run scenario_d_world apps_command = Some (scenario_d_row @ [CHR 0x0A])"
    by code_simp
  have h3: "[scenario_d_row] =
              filter (\<lambda>l. l \<noteq> []) (lines (strip (scenario_d_row @ [CHR 0x0A])))"
    by code_simp
  have h4: "0 < length [scenario_d_row]"
    by simp
  have h5: "1 < length (split_on CHR '','' ([scenario_d_row] ! 0))"
    by code_simp
  have h6: "py_in not_supported (strip (split_on CHR '','' ([scenario_d_row] ! 0) ! 1))"
    by code_simp
  from unsupported_pid_row_kept [OF h1 h2 h3 h4 h5 h6] h1 h2 h3 h5 h6 show ?thesis
    by simp
qed

text \<open>
  Claim C2, at a concrete run. The compute-process listing has the pids 10 and 1234; the
  process listing of the operating system has a line for 10 only. Line 215 has given every
  pid the value \<open>{"user": "UNKNOWN", "comm": ""}\<close>, so the test of line 295 for \<open>None\<close> fails
  and the entry of pid 1234 is returned, and attached to its device, with that value.
\<close>

theorem exited_process_kept:
  "running_processes exited_world = Inr [process_10, process_1234] \<and>
   new_query exited_world =
     Inr \<lparr>gpus = [(Some ''GPU-aaa'',
                    \<lparr>entry = device_entry, processes = [process_10, process_1234]\<rparr>)],
          hostname = ''host'', query_time = ''now''\<rparr>"
  by code_simp

text \<open>
  Claim C5. When the control-group lookup for a pid fails, or its output does not split
  into three fields, the identity stored for that pid is left as it was. The other pids are
  resolved as they are in any world that differs in the lookup for this pid only, the keys
  of the pid map stay the same, and \<open>running_processes\<close> raises an exception in the one
  world exactly if it raises it in the other: the failed lookup aborts nothing.
\<close>

theorem cgroup_failure_isolated:
  assumes "run w (cgroup_command p) = None \<or>
           (\<exists>out e. run w (cgroup_command p) = Some out \<and> cgroup_fields out = Inl e)"
    and "\<forall>c. c \<noteq> cgroup_command p \<longrightarrow> run w0 c = run w c"
  shows "map_of (resolve_containers w lxc docker d m) p = map_of m p \<and>
         (\<forall>q. q \<noteq> p \<longrightarrow>
            map_of (resolve_containers w lxc docker d m) q =
            map_of (resolve_containers w0 lxc docker d m) q) \<and>
         map fst (resolve_containers w lxc docker d m) = map fst m \<and>
         (\<forall>e. running_processes w = Inl e \<longleftrightarrow> running_processes w0 = Inl e)"
proof -
  have "resolve_pid w lxc docker d p = (\<lambda>v. v)"
    by (rule ext) (rule resolve_pid_failed [OF assms(1)])
  then have 1: "map_of (resolve_containers w lxc docker d m) p = map_of m p"
    by (simp only: map_of_resolve_containers option.map_ident)
  have 2: "map_of (resolve_containers w lxc docker d m) q =
           map_of (resolve_containers w0 lxc docker d m) q" if "q \<noteq> p" for q
  proof -
    from that have "cgroup_command q \<noteq> cgroup_command p"
      using cgroup_command_inj by blast
    with assms(2) have "run w0 (cgroup_command q) = run w (cgroup_command q)" by blast
    then have "resolve_pid w0 lxc docker d q = resolve_pid w lxc docker d q"
      by (intro ext resolve_pid_cong)
    then show ?thesis
      by (simp only: map_of_resolve_containers)
  qed
  have 3: "map fst (resolve_containers w lxc docker d m) = map fst m"
    unfolding resolve_containers_def by (induction m) auto
  have 4: "running_processes w = Inl e \<longleftrightarrow> running_processes w0 = Inl e" for e
  proof (rule running_processes_cgroup_independent [symmetric])
    fix c assume "c \<noteq> cgroup_command p"
    with assms(2) show "run w0 c = run w c" by blast
  qed
  from 1 2 3 4 show ?thesis by blast
qed

theorem cgroup_failure_isolated_witness:
  "run lxc_world (cgroup_command 10) = None \<and>
   run lxc_world_answering (cgroup_command 10) =
     Some (''10 alice    11:hugetlb:/lxc/box,1'' @ [CHR 0x0A]) \<and>
   map_of (resolve_containers lxc_world True False [] lxc_pid_map) 10 =
     Some (Some (''alice'', ''python'')) \<and>
   map_of (resolve_containers lxc_world_answering True False [] lxc_pid_map) 11 =
     Some (Some (''bob/pablo_juk'', ''blender'')) \<and>
   map_of (resolve_containers lxc_world True False [] lxc_pid_map) 11 =
     Some (Some (''bob/pablo_juk'', ''blender'')) \<and>
   running_processes lxc_world = Inr [process_10_lxc, process_11_lxc] \<and>
   running_processes lxc_world_answering \<noteq> Inl CalledProcessError"
proof -
  have h0: "run lxc_world (cgroup_command 10) = None"
    by code_simp
  then have h1: "run lxc_world (cgroup_command 10) = None \<or>
           (\<exists>out e. run lxc_world (cgroup_command 10) = Some out \<and> cgroup_fields out = Inl e)"
    by (rule disjI1)
  have h2: "\<forall>c. c \<noteq> cgroup_command 10 \<longrightarrow> run lxc_world_answering c = run lxc_world c"
    by (simp add: lxc_world_answering_def)
  have p10: "map_of lxc_pid_map 10 = Some (Some (''alice'', ''python''))"
    by (simp add: lxc_pid_map_def)
  have p11: "map_of (resolve_containers lxc_world_answering True False [] lxc_pid_map) 11 =
               Some (Some (''bob/pablo_juk'', ''blender''))"
    by code_simp
  have r: "running_processes lxc_world = Inr [process_10_lxc, process_11_lxc]"
    by code_simp
  have ne: "(10::int) \<noteq> 11 \<and> (11::int) \<noteq> 10"
    by simp
  have a: "run lxc_world_answering (cgroup_command 10) =
             Some (''10 alice    11:hugetlb:/lxc/box,1'' @ [CHR 0x0A])"
    by (simp add: lxc_world_answering_def)
  note t = cgroup_failure_isolated [OF h1 h2, of True False "[]" lxc_pid_map]
  from t p10 have t1: "map_of (resolve_containers lxc_world True False [] lxc_pid_map) 10 =
                         Some (Some (''alice'', ''python''))"
    by simp
  from t ne p11 have t2: "map_of (resolve_containers lxc_world True False [] lxc_pid_map) 11 =
                            Some (Some (''bob/pablo_juk'', ''blender''))"
    by metis
  from t r have t3: "running_processes lxc_world_answering \<noteq> Inl CalledProcessError"
    by (metis sum.distinct(1))
  from h0 a t1 p11 t2 r t3 show ?thesis
    by blast
qed

section \<open>Claims about joining processes to devices\<close>

text \<open>
  Claim C1, at a concrete run. The device listing has the one device \<open>GPU-aaa\<close>; the second
  compute process names the device \<open>GPU-zzz\<close>. The \<open>KeyError\<close> of line 309 is caught, and
  line 313, which is outside the \<open>try\<close> statement, appends the process to the device that
  \<open>g\<close> still names from the round before: the process of \<open>GPU-zzz\<close> ends up in the process
  list of \<open>GPU-aaa\<close>. When the first process already names an unknown device, \<open>g\<close> has no
  value yet and \<open>UnboundLocalError\<close> leaves \<open>new_query\<close> uncaught.
\<close>

theorem unknown_device_process_attached:
  "new_query join_world =
     Inr \<lparr>gpus = [(Some ''GPU-aaa'',
                    \<lparr>entry = device_entry, processes = [process_10, process_11]\<rparr>)],
          hostname = ''host'', query_time = ''now''\<rparr> \<and>
   map_of process_11 ''gpu_uuid'' = Some (Some ''GPU-zzz'') \<and>
   new_query orphan_world = Inl UnboundLocalError \<and>
   print_gpustat orphan_world default_args = Uncaught UnboundLocalError"
  by code_simp

section \<open>Claims about rendering\<close>

text \<open>
  Claim C3, at concrete records. The record of scenario B has \<open>None\<close> for the temperature:
  line 79 calls \<open>int(None)\<close>, a \<open>TypeError\<close>. With a numeric temperature and an unsupported
  utilization, line 87 calls \<open>int("??")\<close>, a \<open>ValueError\<close>. With both numeric and an
  unsupported memory, line 99 formats \<open>None\<close> with a width, a \<open>TypeError\<close>. Nothing is
  rendered, and \<open>print_gpustat\<close> does not catch the exception.
\<close>

theorem unsupported_device_not_rendered:
  "GPUStat_init (gpu_entry_of_line scenario_b_line) = Inr scenario_b_gpu \<and>
   print_to scenario_b_gpu True False False False 16 = Inl TypeError \<and>
   print_gpustat scenario_b_world default_args = Uncaught TypeError \<and>
   GPUStat_init (gpu_entry_of_line no_utilization_line) = Inr no_utilization_gpu \<and>
   print_to no_utilization_gpu True False False False 16 = Inl ValueError \<and>
   GPUStat_init (gpu_entry_of_line no_memory_line) = Inr no_memory_gpu \<and>
   print_to no_memory_gpu True False False False 16 = Inl TypeError"
  by code_simp




section \<open>Claims about failing commands\<close>

text \<open>
  Claim C4, as stated, fails: here the device query succeeds and docker answers the version
  probe, but \<open>docker ps\<close> fails. Line 241 calls \<open>exec_command\<close> without
  \<open>ignore_exceptions\<close>, \<open>CalledProcessError\<close> leaves \<open>new_query\<close>, and \<open>print_gpustat\<close>
  exits with code 1 and the message of a failed device query.
\<close>

theorem docker_listing_failure_fatal:
  "query_gpu_list docker_down_world = Inr [boundary_gpu] \<and>
   run docker_down_world docker_probe = Some docker_version_text \<and>
   run docker_down_world docker_ps_command = None \<and>
   new_query docker_down_world = Inl CalledProcessError \<and>
   print_gpustat docker_down_world default_args = Exit 1 nvidia_smi_error"
  by code_simp

text \<open>
  Claim C4, amended. A failing device query is fatal and user-visible: exit code 1 with
  the message on the standard error. A failing compute-process query, a failing process
  listing of the operating system (run when there is a pid to look up) and a failing
  \<open>docker ps\<close> (run when docker answers its version probe) are not absorbed: they leave
  snapshot construction as \<open>CalledProcessError\<close> and end \<open>print_gpustat\<close> in the same way.
  Absorbed are a failing version probe, after which the snapshot and the report are those
  of a probe that answers with no text, and a control-group lookup, whose outcome never
  decides whether \<open>running_processes\<close> raises.
\<close>

theorem required_commands_fatal_probes_absorbed:
  "((run w gpu_command = None \<or>
     (\<exists>gl. query_gpu_list w = Inr gl) \<and>
     (run w apps_command = None \<or>
      (\<exists>es m. query_process_entries w = Inr es \<and> build_pid_map [] es = Inr m \<and> m \<noteq> [] \<and>
         run w (ps_command (map fst m)) = None) \<or>
      (\<exists>es m v. query_process_entries w = Inr es \<and> os_identities w es = Inr m \<and>
         run w docker_probe = Some v \<and> strip v \<noteq> [] \<and> run w docker_ps_command = None)))
    \<longrightarrow> new_query w = Inl CalledProcessError \<and> print_gpustat w a = Exit 1 nvidia_smi_error) \<and>
   new_query (quiet_probes w) = new_query w \<and>
   print_gpustat (quiet_probes w) a = print_gpustat w a \<and>
   ((\<forall>c. c \<noteq> cgroup_command p \<longrightarrow> run w2 c = run w c) \<longrightarrow>
      (running_processes w2 = Inl e \<longleftrightarrow> running_processes w = Inl e))"
proof -
  have device: "new_query w = Inl CalledProcessError" if "run w gpu_command = None"
    using that by (simp add: new_query_def query_gpu_list_def exec_command_def)
  have later: "new_query w = Inl CalledProcessError"
    if "query_gpu_list w = Inr gl"
      and "run w apps_command = None \<or>
      (\<exists>es m. query_process_entries w = Inr es \<and> build_pid_map [] es = Inr m \<and> m \<noteq> [] \<and>
         run w (ps_command (map fst m)) = None) \<or>
      (\<exists>es m v. query_process_entries w = Inr es \<and> os_identities w es = Inr m \<and>
         run w docker_probe = Some v \<and> strip v \<noteq> [] \<and> run w docker_ps_command = None)"
    for gl
    using that(1) running_processes_required [OF that(2)] by (rule new_query_process_failure)
  have exit: "print_gpustat w a = Exit 1 nvidia_smi_error" if "new_query w = Inl CalledProcessError"
    using that by (simp add: print_gpustat_def)
  have probes: "new_query (quiet_probes w) = new_query w"
    by (rule new_query_quiet_probes)
  then have report: "print_gpustat (quiet_probes w) a = print_gpustat w a"
    by (simp add: print_gpustat_def)
  have lookup: "running_processes w2 = Inl e \<longleftrightarrow> running_processes w = Inl e"
    if "\<forall>c. c \<noteq> cgroup_command p \<longrightarrow> run w2 c = run w c"
    by (rule running_processes_cgroup_independent) (use that in blast)
  from device later exit probes report lookup show ?thesis
    by blast
qed

theorem required_commands_fatal_probes_absorbed_witness:
  "query_gpu_list docker_down_world = Inr [boundary_gpu] \<and>
   query_process_entries docker_down_world = Inr [] \<and>
   os_identities docker_down_world [] = Inr [] \<and>
   run docker_down_world docker_probe = Some docker_version_text \<and>
   strip docker_version_text \<noteq> [] \<and>
   run docker_down_world docker_ps_command = None \<and>
   run docker_down_world lxc_probe = None \<and>
   new_query docker_down_world = Inl CalledProcessError \<and>
   print_gpustat docker_down_world default_args = Exit 1 nvidia_smi_error \<and>
   new_query (quiet_probes docker_down_world) = Inl CalledProcessError \<and>
   running_processes docker_down_world_2 = Inl CalledProcessError"
proof -
  have g: "query_gpu_list docker_down_world = Inr [boundary_gpu]"
    by code_simp
  have q: "query_process_entries docker_down_world = Inr []"
    by code_simp
  have o: "os_identities docker_down_world [] = Inr []"
    by code_simp
  have v: "run docker_down_world docker_probe = Some docker_version_text"
    by code_simp
  have s: "strip docker_version_text \<noteq> []"
    by code_simp
  have d: "run docker_down_world docker_ps_command = None"
    by code_simp
  have l: "run docker_down_world lxc_probe = None"
    by code_simp
  have c: "\<forall>c. c \<noteq> cgroup_command 10 \<longrightarrow> run docker_down_world_2 c = run docker_down_world c"
    by (simp add: docker_down_world_2_def)
  have r: "running_processes docker_down_world = Inl CalledProcessError"
    by code_simp
  have fatal: "run docker_down_world gpu_command = None \<or>
     (\<exists>gl. query_gpu_list docker_down_world = Inr gl) \<and>
     (run docker_down_world apps_command = None \<or>
      (\<exists>es m. query_process_entries docker_down_world = Inr es \<and>
         build_pid_map [] es = Inr m \<and> m \<noteq> [] \<and>
         run docker_down_world (ps_command (map fst m)) = None) \<or>
      (\<exists>es m v. query_process_entries docker_down_world = Inr es \<and>
         os_identities docker_down_world es = Inr m \<and>
         run docker_down_world docker_probe = Some v \<and> strip v \<noteq> [] \<and>
         run docker_down_world docker_ps_command = None))"
    using g q o v s d by blast
  note t = required_commands_fatal_probes_absorbed
         [of docker_down_world default_args 10 docker_down_world_2 CalledProcessError]
  from t fatal have a: "new_query docker_down_world = Inl CalledProcessError \<and>
        print_gpustat docker_down_world default_args = Exit 1 nvidia_smi_error"
    by blast
  from t have "new_query (quiet_probes docker_down_world) = new_query docker_down_world"
    by blast
  with a have b: "new_query (quiet_probes docker_down_world) = Inl CalledProcessError"
    by simp
  from t c have "running_processes docker_down_world_2 = Inl CalledProcessError \<longleftrightarrow>
                 running_processes docker_down_world = Inl CalledProcessError"
    by blast
  with r have "running_processes docker_down_world_2 = Inl CalledProcessError"
    by simp
  with a b have "new_query docker_down_world = Inl CalledProcessError \<and>
        print_gpustat docker_down_world default_args = Exit 1 nvidia_smi_error \<and>
        new_query (quiet_probes docker_down_world) = Inl CalledProcessError \<and>
        running_processes docker_down_world_2 = Inl CalledProcessError"
    by blast
  with g q o v s d l show ?thesis
    by blast
qed

end
